theory Spec2Isabelle
  imports Main
begin

section \<open>JavaScript values and strings\<close>

text \<open>
  A JavaScript string is a sequence of code units. The model uses \<^typ>\<open>string\<close> and reads
  each \<^typ>\<open>char\<close> as the code unit of the same number (U+0000 to U+00FF); code units above
  U+00FF are not represented.

  A cell of a worksheet row, a field of a record and a property of a parsed JSON body are
  JavaScript values. The code only ever converts them to text (\<^verbatim>\<open>String(value)\<close>), tests
  them for \<^verbatim>\<open>null\<close>/\<^verbatim>\<open>undefined\<close> or tests their truthiness, so a number is
  represented by the text \<^verbatim>\<open>String\<close> renders for it, and any other object (a date, an
  array) likewise.
\<close>

datatype jsval =
    Undefined
  | Null
  | Bool bool
  | Num string
  | Str string
  | Obj string

fun js_String :: "jsval \<Rightarrow> string" where
  "js_String Undefined = ''undefined''"
| "js_String Null = ''null''"
| "js_String (Bool b) = (if b then ''true'' else ''false'')"
| "js_String (Num s) = s"
| "js_String (Str s) = s"
| "js_String (Obj s) = s"

text \<open>Truthiness: a number is falsy exactly when it is zero or NaN, which \<^verbatim>\<open>String\<close>
  renders as \<^verbatim>\<open>0\<close> and \<^verbatim>\<open>NaN\<close>.\<close>

fun truthy :: "jsval \<Rightarrow> bool" where
  "truthy Undefined = False"
| "truthy Null = False"
| "truthy (Bool b) = b"
| "truthy (Num s) = (s \<noteq> ''0'' \<and> s \<noteq> ''NaN'')"
| "truthy (Str s) = (s \<noteq> [])"
| "truthy (Obj s) = True"

fun nullish :: "jsval \<Rightarrow> bool" where
  "nullish Undefined = True"
| "nullish Null = True"
| "nullish v = False"

text \<open>\<^verbatim>\<open>a ?? b\<close>\<close>

definition nullish_or :: "jsval \<Rightarrow> jsval \<Rightarrow> jsval" where
  "nullish_or a b = (if nullish a then b else a)"

text \<open>The white space \<^verbatim>\<open>String.prototype.trim\<close> removes, among the code units up to U+00FF:
  TAB, LF, VT, FF, CR, SPACE and NO-BREAK SPACE.\<close>

definition is_space :: "char \<Rightarrow> bool" where
  "is_space c = (c \<in> set [CHR 0x09, CHR 0x0A, CHR 0x0B, CHR 0x0C, CHR 0x0D, CHR 0x20, CHR 0xA0])"

definition trim :: "string \<Rightarrow> string" where
  "trim s = rev (dropWhile is_space (rev (dropWhile is_space s)))"

text \<open>The class \<^verbatim>\<open>\d\<close> of a regular expression: the ten ASCII digits.\<close>

definition is_digit :: "char \<Rightarrow> bool" where
  "is_digit c = (c \<in> set ''0123456789'')"

text \<open>\<^verbatim>\<open>s.startsWith(p)\<close>\<close>

definition startsWith :: "string \<Rightarrow> string \<Rightarrow> bool" where
  "startsWith s p = (take (length p) s = p)"

text \<open>\<^verbatim>\<open>s.includes(p)\<close>: \<open>p\<close> occurs in \<open>s\<close> as a contiguous run.\<close>

fun includes_str :: "string \<Rightarrow> string \<Rightarrow> bool" where
  "includes_str [] p = (p = [])"
| "includes_str (c # cs) p = (startsWith (c # cs) p \<or> includes_str cs p)"

text \<open>\<^verbatim>\<open>String.prototype.toLowerCase\<close> on the code units up to U+00FF: the letters A to Z and
  the Latin-1 capitals U+00C0 to U+00DE (the multiplication sign U+00D7 apart) move up by 32.\<close>

definition lower_char :: "char \<Rightarrow> char" where
  "lower_char c =
     (let n = (of_char c :: nat)
      in if (65 \<le> n \<and> n \<le> 90) \<or> (192 \<le> n \<and> n \<le> 222 \<and> n \<noteq> 215)
         then char_of (n + 32) else c)"

definition toLowerCase :: "string \<Rightarrow> string" where
  "toLowerCase s = map lower_char s"

text \<open>The decimal text of a natural number, as a template literal renders an array index.\<close>

function dec :: "nat \<Rightarrow> string" where
  "dec n = (if n < 10 then [''0123456789'' ! n]
            else dec (n div 10) @ [''0123456789'' ! (n mod 10)])"
  by pat_completeness auto
termination
  by (relation "measure id") auto

declare dec.simps [simp del]

section \<open>Phone Normalizer\<close>

text \<open>
  \<^verbatim>\<open>normalizePhone\<close> of the page component. \<^verbatim>\<open>raw.replace(/[^\d+]/g, '')\<close> keeps the
  digits and the plus signs; \<^verbatim>\<open>replace(/[+]/g, '')\<close> then drops the plus signs. The branch
  \<^verbatim>\<open>numeric.startsWith('+')\<close> of the source returns the same value as the last line and is
  kept as written.
\<close>

definition normalizePhone :: "jsval \<Rightarrow> string" where
  "normalizePhone v =
     (if v = Null \<or> v = Undefined then []
      else
        let raw = trim (js_String v) in
        if raw = [] then []
        else
          let preservedPlus = startsWith raw ''+'';
              digits = filter (\<lambda>c. is_digit c \<or> c = CHR ''+'') raw
          in if preservedPlus then ''+'' @ filter (\<lambda>c. c \<noteq> CHR ''+'') digits
             else
               let numeric = filter (\<lambda>c. c \<noteq> CHR ''+'') digits
               in if length numeric = 11 \<and> startsWith numeric ''1'' then ''+'' @ numeric
                  else if length numeric = 10 then ''+1'' @ numeric
                  else if startsWith numeric ''+'' then numeric
                  else numeric)"

text \<open>The normalizer as the specification words it: the digits of the input, with a prefix
  chosen from the trimmed text.\<close>

definition digits_of :: "string \<Rightarrow> string" where
  "digits_of s = filter is_digit s"

definition normalizePhone_spec :: "jsval \<Rightarrow> string" where
  "normalizePhone_spec v =
     (if nullish v then []
      else if trim (js_String v) = [] then []
      else if hd (trim (js_String v)) = CHR ''+'' then ''+'' @ digits_of (js_String v)
      else if length (digits_of (js_String v)) = 11 \<and> hd (digits_of (js_String v)) = CHR ''1''
           then ''+'' @ digits_of (js_String v)
      else if length (digits_of (js_String v)) = 10 then ''+1'' @ digits_of (js_String v)
      else digits_of (js_String v))"

section \<open>Objects\<close>

text \<open>
  A JavaScript object with string keys is an association list in insertion order, its keys
  distinct. Writing an existing key keeps its place, writing a new key appends. (JavaScript
  lists keys that are array indices first; such a key is made of digits only, and the one
  loop over the entries of an object, \<^verbatim>\<open>findRowScript\<close>, skips such keys wherever they
  stand.)
\<close>

type_synonym obj = "(string \<times> jsval) list"

text \<open>\<^verbatim>\<open>o[k]\<close>: the value of a missing key is \<^verbatim>\<open>undefined\<close>.\<close>

fun obj_get :: "obj \<Rightarrow> string \<Rightarrow> jsval" where
  "obj_get [] k = Undefined"
| "obj_get ((k', v) # rest) k = (if k' = k then v else obj_get rest k)"

fun obj_set :: "obj \<Rightarrow> string \<Rightarrow> jsval \<Rightarrow> obj" where
  "obj_set [] k v = [(k, v)]"
| "obj_set ((k', v') # rest) k v =
     (if k' = k then (k, v) # rest else (k', v') # obj_set rest k v)"

text \<open>\<^verbatim>\<open>{ ...base, ...src }\<close>: the entries of \<open>src\<close> are written into \<open>base\<close> one by one.\<close>

fun obj_spread :: "obj \<Rightarrow> obj \<Rightarrow> obj" where
  "obj_spread base [] = base"
| "obj_spread base ((k, v) # src) = obj_spread (obj_set base k v) src"

section \<open>Dial Record Builder\<close>

record ParsedWorkbook =
  columns :: "string list"
  rows :: "obj list"
  suggestedFromColumn :: "string option"
  suggestedToColumn :: "string option"

text \<open>\<^verbatim>\<open>a || b\<close> on two strings.\<close>

definition or_str :: "string \<Rightarrow> string \<Rightarrow> string" where
  "or_str a b = (if a = [] then b else a)"

text \<open>The object literal of the \<^verbatim>\<open>map\<close> callback of \<^verbatim>\<open>dialRecords\<close>: the six derived
  fields, then the spread of the row.\<close>

definition make_record :: "string \<Rightarrow> string \<Rightarrow> nat \<Rightarrow> obj \<Rightarrow> obj" where
  "make_record fromColumn toColumn index row =
     (let rawFrom = obj_get row fromColumn;
          rawTo = obj_get row toColumn;
          from_n = normalizePhone rawFrom;
          to_n = normalizePhone rawTo
      in obj_spread
           [(''id'', Str (''row-'' @ dec index)),
            (''from'', Str from_n),
            (''to'', Str to_n),
            (''displayFrom'', Str (or_str (trim (js_String (nullish_or rawFrom (Str [])))) from_n)),
            (''displayTo'', Str (or_str (trim (js_String (nullish_or rawTo (Str [])))) to_n)),
            (''rowIndex'', Num (dec (index + 1)))]
           row)"

text \<open>The \<^verbatim>\<open>map\<close> callback: \<^verbatim>\<open>null\<close> (here \<open>None\<close>) when either normalized number is
  empty.\<close>

definition build_entry :: "string \<Rightarrow> string \<Rightarrow> nat \<Rightarrow> obj \<Rightarrow> obj option" where
  "build_entry fromColumn toColumn index row =
     (let from_n = normalizePhone (obj_get row fromColumn);
          to_n = normalizePhone (obj_get row toColumn)
      in if from_n = [] \<or> to_n = [] then None
         else Some (make_record fromColumn toColumn index row))"

text \<open>\<^verbatim>\<open>xs.map((x, index) => f(x, index))\<close>, the index counted from \<open>i\<close>.\<close>

fun map_index :: "(nat \<Rightarrow> 'a \<Rightarrow> 'b) \<Rightarrow> nat \<Rightarrow> 'a list \<Rightarrow> 'b list" where
  "map_index f i [] = []"
| "map_index f i (x # xs) = f i x # map_index f (Suc i) xs"

text \<open>\<^verbatim>\<open>.filter(Boolean)\<close> on a list of objects and \<^verbatim>\<open>null\<close>s: an object is truthy.\<close>

fun filter_Boolean :: "'a option list \<Rightarrow> 'a list" where
  "filter_Boolean [] = []"
| "filter_Boolean (None # xs) = filter_Boolean xs"
| "filter_Boolean (Some x # xs) = x # filter_Boolean xs"

text \<open>The memoised \<^verbatim>\<open>dialRecords\<close>. The workbook is \<^verbatim>\<open>null\<close> until a file is ready; a
  column is \<^verbatim>\<open>null\<close> until chosen, and the empty string is falsy as well.\<close>

definition dialRecords ::
  "ParsedWorkbook option \<Rightarrow> string option \<Rightarrow> string option \<Rightarrow> obj list" where
  "dialRecords workbook fromColumn toColumn =
     (case workbook of
        None \<Rightarrow> []
      | Some wb \<Rightarrow>
          (case fromColumn of
             None \<Rightarrow> []
           | Some fc \<Rightarrow>
               (case toColumn of
                  None \<Rightarrow> []
                | Some tc \<Rightarrow>
                    if fc = [] \<or> tc = [] then []
                    else filter_Boolean (map_index (build_entry fc tc) 0 (rows wb)))))"

text \<open>A row is dialable when both selected cells normalize to a non-empty string.\<close>

definition dialable_row :: "string \<Rightarrow> string \<Rightarrow> obj \<Rightarrow> bool" where
  "dialable_row fc tc row =
     (normalizePhone (obj_get row fc) \<noteq> [] \<and> normalizePhone (obj_get row tc) \<noteq> [])"

section \<open>Script resolution\<close>

definition preferredKeys :: "string list" where
  "preferredKeys = [''script'', ''message'', ''notes'', ''prompt'']"

fun findRowScript :: "obj \<Rightarrow> string option" where
  "findRowScript [] = None"
| "findRowScript ((key, val) # rest) =
     (if list_ex (\<lambda>candidate. includes_str (toLowerCase (trim key)) candidate) preferredKeys
      then (if trim (js_String (nullish_or val (Str []))) \<noteq> []
            then Some (trim (js_String (nullish_or val (Str []))))
            else findRowScript rest)
      else findRowScript rest)"

text \<open>\<^verbatim>\<open>findRowScript(record) || scriptOverride.trim()\<close>\<close>

definition resolve_script :: "obj \<Rightarrow> string \<Rightarrow> string" where
  "resolve_script record scriptOverride =
     (case findRowScript record of
        None \<Rightarrow> trim scriptOverride
      | Some t \<Rightarrow> if t \<noteq> [] then t else trim scriptOverride)"

text \<open>Script resolution as the specification words it: the first field whose column name
  contains a preferred word, whatever the case of its letters, and whose trimmed text is
  not empty, gives that text; otherwise the trimmed global script (empty: no script).\<close>

definition name_matches :: "string \<Rightarrow> bool" where
  "name_matches key = list_ex (\<lambda>candidate. includes_str (toLowerCase key) candidate) preferredKeys"

definition cell_text :: "jsval \<Rightarrow> string" where
  "cell_text v = (if nullish v then [] else trim (js_String v))"

definition resolve_script_spec :: "obj \<Rightarrow> string \<Rightarrow> string" where
  "resolve_script_spec record global =
     (case List.find (\<lambda>(key, val). name_matches key \<and> cell_text val \<noteq> []) record of
        Some (key, val) \<Rightarrow> cell_text val
      | None \<Rightarrow> trim global)"

section \<open>Call Trigger and Queue Dialer\<close>

datatype call_status = Idle | Calling | Success | Error

record CallResult =
  id_of :: jsval
  status :: call_status
  message :: "string option"
  sid :: jsval
  timestamp :: nat

text \<open>The \<^verbatim>\<open>update\<close> argument of \<^verbatim>\<open>setCallStatus\<close>: a key that the caller leaves out is
  \<open>None\<close> and keeps the value of the previous entry.\<close>

record status_update =
  u_status :: call_status
  u_message :: "string option"
  u_sid :: "jsval option"
  u_timestamp :: "nat option"

record payload =
  p_from :: jsval
  p_to :: jsval
  p_script :: string

text \<open>What a \<^verbatim>\<open>catch\<close> receives: an \<^verbatim>\<open>Error\<close> with its message, or any other value.\<close>

datatype thrown = ErrorObj string | NonError

text \<open>The body of a response as \<^verbatim>\<open>response.json()\<close> delivers it: a rejection, the value
  \<^verbatim>\<open>null\<close>, or a value with its properties (a JSON string, number, boolean or array has
  neither of the two properties the code reads).\<close>

datatype json_body = Unparseable thrown | ParsedNull | Parsed obj

datatype fetch_outcome = Rejected thrown | Response bool json_body

datatype event =
    SetStatus string call_status
  | Fetch payload
  | Delay nat
  | SetAutoDialing bool

text \<open>The world outside the page: the clock, the network, and the message of the
  \<^verbatim>\<open>TypeError\<close> that destructuring \<^verbatim>\<open>null\<close> raises, which names the property being
  read. Clock and network are asked with the number of effects performed so far.\<close>

record env =
  date_now :: "nat \<Rightarrow> nat"
  fetch :: "nat \<Rightarrow> payload \<Rightarrow> fetch_outcome"
  null_destructure_message :: "string \<Rightarrow> string"

record state =
  statusMap :: "string \<rightharpoonup> CallResult"
  isAutoDialing :: bool
  scriptOverride :: string
  trace :: "event list"

text \<open>The status the table shows for a record: \<^verbatim>\<open>statusMap[id]?.status ?? 'idle'\<close>.\<close>

definition status_of :: "(string \<rightharpoonup> CallResult) \<Rightarrow> string \<Rightarrow> call_status" where
  "status_of m k = (case m k of None \<Rightarrow> Idle | Some r \<Rightarrow> status r)"

text \<open>\<^verbatim>\<open>setCallStatus\<close>: the entry under the record id is the previous entry overwritten
  with id, timestamp and the keys of the update. The key of the dictionary is the id as a
  property key, that is its text.\<close>

definition setCallStatus :: "env \<Rightarrow> jsval \<Rightarrow> status_update \<Rightarrow> state \<Rightarrow> state" where
  "setCallStatus e recordId upd s =
     (let nextTimestamp = (case u_timestamp upd of
                             None \<Rightarrow> date_now e (length (trace s))
                           | Some t \<Rightarrow> t);
          previous = statusMap s (js_String recordId);
          entry = \<lparr> id_of = recordId,
                    status = u_status upd,
                    message = (case u_message upd of
                                 Some m \<Rightarrow> Some m
                               | None \<Rightarrow> (case previous of None \<Rightarrow> None | Some r \<Rightarrow> message r)),
                    sid = (case u_sid upd of
                             Some v \<Rightarrow> v
                           | None \<Rightarrow> (case previous of None \<Rightarrow> Undefined | Some r \<Rightarrow> sid r)),
                    timestamp = nextTimestamp \<rparr>
      in s\<lparr> statusMap := (statusMap s)(js_String recordId \<mapsto> entry),
            trace := trace s @ [SetStatus (js_String recordId) (u_status upd)] \<rparr>)"

definition call_payload :: "obj \<Rightarrow> state \<Rightarrow> payload" where
  "call_payload record s =
     \<lparr> p_from = obj_get record ''from'',
       p_to = obj_get record ''to'',
       p_script = resolve_script record (scriptOverride s) \<rparr>"

text \<open>The \<^verbatim>\<open>try\<close> block after the request: \<open>Inl\<close> is what it throws, \<open>Inr\<close> the \<^verbatim>\<open>sid\<close>
  it read from the body.\<close>

definition settle :: "env \<Rightarrow> fetch_outcome \<Rightarrow> thrown + jsval" where
  "settle e outcome =
     (case outcome of
        Rejected t \<Rightarrow> Inl t
      | Response ok body \<Rightarrow>
          if \<not> ok then
            (case body of
               Unparseable t \<Rightarrow> Inl (ErrorObj ''Call failed'')
             | ParsedNull \<Rightarrow> Inl (ErrorObj (null_destructure_message e ''error''))
             | Parsed b \<Rightarrow>
                 Inl (ErrorObj (js_String (nullish_or (obj_get b ''error'') (Str ''Call failed'')))))
          else
            (case body of
               Unparseable t \<Rightarrow> Inl t
             | ParsedNull \<Rightarrow> Inl (ErrorObj (null_destructure_message e ''sid''))
             | Parsed b \<Rightarrow> Inr (obj_get b ''sid'')))"

definition triggerCall :: "env \<Rightarrow> obj \<Rightarrow> state \<Rightarrow> state" where
  "triggerCall e record s =
     (if \<not> truthy (obj_get record ''from'') \<or> \<not> truthy (obj_get record ''to'') then
        setCallStatus e (obj_get record ''id'')
          \<lparr> u_status = Error, u_message = Some ''Missing phone numbers'',
            u_sid = None, u_timestamp = None \<rparr> s
      else
        let s1 = setCallStatus e (obj_get record ''id'')
                   \<lparr> u_status = Calling, u_message = Some ''Dialing...'',
                     u_sid = None, u_timestamp = None \<rparr> s;
            request = call_payload record s;
            outcome = fetch e (length (trace s1)) request;
            s2 = s1\<lparr> trace := trace s1 @ [Fetch request] \<rparr>
        in case settle e outcome of
             Inr sidv \<Rightarrow>
               setCallStatus e (obj_get record ''id'')
                 \<lparr> u_status = Success,
                   u_message = Some (if truthy sidv
                                     then ''Call queued (SID: '' @ js_String sidv @ '')''
                                     else ''Call queued''),
                   u_sid = Some sidv, u_timestamp = None \<rparr> s2
           | Inl callError \<Rightarrow>
               setCallStatus e (obj_get record ''id'')
                 \<lparr> u_status = Error,
                   u_message = Some (case callError of
                                       ErrorObj m \<Rightarrow> m
                                     | NonError \<Rightarrow> ''Call failed''),
                   u_sid = None, u_timestamp = None \<rparr> s2)"

definition delay :: "nat \<Rightarrow> state \<Rightarrow> state" where
  "delay ms s = s\<lparr> trace := trace s @ [Delay ms] \<rparr>"

text \<open>\<^verbatim>\<open>statusMap[record.id]?.status === 'success'\<close>\<close>

definition is_success :: "(string \<rightharpoonup> CallResult) \<Rightarrow> obj \<Rightarrow> bool" where
  "is_success m record =
     (case m (js_String (obj_get record ''id'')) of
        None \<Rightarrow> False
      | Some r \<Rightarrow> status r = Success)"

text \<open>The loop of \<^verbatim>\<open>handleDialAll\<close>. Its test reads the \<^verbatim>\<open>statusMap\<close> of the render that
  created the handler: the dictionary as it was when the run started.\<close>

fun dial_loop :: "env \<Rightarrow> (string \<rightharpoonup> CallResult) \<Rightarrow> obj list \<Rightarrow> state \<Rightarrow> state" where
  "dial_loop e snapshot [] s = s"
| "dial_loop e snapshot (record # rest) s =
     (if is_success snapshot record then dial_loop e snapshot rest s
      else dial_loop e snapshot rest (delay 1500 (triggerCall e record s)))"

definition setIsAutoDialing :: "bool \<Rightarrow> state \<Rightarrow> state" where
  "setIsAutoDialing b s = s\<lparr> isAutoDialing := b, trace := trace s @ [SetAutoDialing b] \<rparr>"



fun history :: "string \<Rightarrow> event list \<Rightarrow> call_status list" where
  "history k [] = []"
| "history k (SetStatus k' st # tr) = (if k' = k then st # history k tr else history k tr)"
| "history k (ev # tr) = history k tr"

definition dialable :: "obj \<Rightarrow> bool" where
  "dialable record = (truthy (obj_get record ''from'') \<and> truthy (obj_get record ''to''))"

text \<open>The key of a record in the status dictionary.\<close>

definition record_key :: "obj \<Rightarrow> string" where
  "record_key r = js_String (obj_get r ''id'')"

text \<open>The status in which a call to a dialable record settles: \<open>Success\<close> when the
  \<^verbatim>\<open>try\<close> block runs through, \<open>Error\<close> when it throws. The request is the effect after the
  \<open>Calling\<close> status.\<close>

definition final_status :: "env \<Rightarrow> obj \<Rightarrow> state \<Rightarrow> call_status" where
  "final_status e r s =
     (case settle e (fetch e (Suc (length (trace s))) (call_payload r s)) of
        Inr sidv \<Rightarrow> Success
      | Inl callError \<Rightarrow> Error)"

text \<open>The page after an upload: no status, no queue run, the global script as typed.\<close>

definition initial_state :: "string \<Rightarrow> state" where
  "initial_state script =
     \<lparr> statusMap = Map.empty, isAutoDialing = False, scriptOverride = script, trace = [] \<rparr>"

section \<open>The page between events\<close>

text \<open>
  \<^verbatim>\<open>triggerCall\<close> and \<^verbatim>\<open>handleDialAll\<close> are asynchronous: each runs until its next
  \<^verbatim>\<open>await\<close> and goes on when the awaited answer or timer comes, and clicks may fall in
  between. The definitions above run a handler to its end; the ones below stop at every
  \<^verbatim>\<open>await\<close>. A call waits for the network once: \<^verbatim>\<open>await fetch\<close> and the
  \<^verbatim>\<open>await response.json()\<close> after it are one arrival, since nothing is written between
  them. The queue waits for its call, then for its timer.

  \<open>pending\<close> holds the calls in flight, each with the number of the effect that issued its
  request. \<open>queue\<close> holds the place of a queue run: the snapshot of the dictionary it
  tests, and the records still to come.
\<close>

datatype queue_state =
    NoQueue
  | AwaitCall nat "string \<rightharpoonup> CallResult" "obj list"
  | AwaitDelay "string \<rightharpoonup> CallResult" "obj list"

record page =
  app :: state
  pending :: "(nat \<times> obj) list"
  queue :: queue_state

text \<open>\<^verbatim>\<open>triggerCall\<close> up to \<^verbatim>\<open>await fetch\<close>: the guard, or the status \<open>Calling\<close> and the
  request. The result names the call when one was issued.\<close>

definition start_call :: "env \<Rightarrow> obj \<Rightarrow> page \<Rightarrow> page \<times> nat option" where
  "start_call e r p =
     (if \<not> truthy (obj_get r ''from'') \<or> \<not> truthy (obj_get r ''to'') then
        (p\<lparr> app := setCallStatus e (obj_get r ''id'')
                      \<lparr> u_status = Error, u_message = Some ''Missing phone numbers'',
                        u_sid = None, u_timestamp = None \<rparr> (app p) \<rparr>,
         None)
      else
        let s1 = setCallStatus e (obj_get r ''id'')
                   \<lparr> u_status = Calling, u_message = Some ''Dialing...'',
                     u_sid = None, u_timestamp = None \<rparr> (app p);
            request = call_payload r (app p);
            n = length (trace s1)
        in (p\<lparr> app := s1\<lparr> trace := trace s1 @ [Fetch request] \<rparr>,
               pending := pending p @ [(n, r)] \<rparr>,
            Some n))"

text \<open>\<^verbatim>\<open>triggerCall\<close> after the answer: the rest of the \<^verbatim>\<open>try\<close> block, or the
  \<^verbatim>\<open>catch\<close>.\<close>

definition finish_call :: "env \<Rightarrow> obj \<Rightarrow> fetch_outcome \<Rightarrow> state \<Rightarrow> state" where
  "finish_call e r outcome s =
     (case settle e outcome of
        Inr sidv \<Rightarrow>
          setCallStatus e (obj_get r ''id'')
            \<lparr> u_status = Success,
              u_message = Some (if truthy sidv
                                then ''Call queued (SID: '' @ js_String sidv @ '')''
                                else ''Call queued''),
              u_sid = Some sidv, u_timestamp = None \<rparr> s
      | Inl callError \<Rightarrow>
          setCallStatus e (obj_get r ''id'')
            \<lparr> u_status = Error,
              u_message = Some (case callError of
                                  ErrorObj m \<Rightarrow> m
                                | NonError \<Rightarrow> ''Call failed''),
              u_sid = None, u_timestamp = None \<rparr> s)"

text \<open>The loop of \<^verbatim>\<open>handleDialAll\<close> from one wait to the next: records successful in the
  snapshot are passed over; the next record is called and the loop waits for the call, or,
  when the guard stopped the call, for the timer; after the last record the flag is
  cleared.\<close>

fun queue_continue ::
  "env \<Rightarrow> (string \<rightharpoonup> CallResult) \<Rightarrow> obj list \<Rightarrow> page \<Rightarrow> page" where
  "queue_continue e snapshot [] p =
     p\<lparr> app := setIsAutoDialing False (app p), queue := NoQueue \<rparr>"
| "queue_continue e snapshot (r # rest) p =
     (if is_success snapshot r then queue_continue e snapshot rest p
      else (case start_call e r p of
              (p', None) \<Rightarrow> p'\<lparr> app := delay 1500 (app p'), queue := AwaitDelay snapshot rest \<rparr>
            | (p', Some n) \<Rightarrow> p'\<lparr> queue := AwaitCall n snapshot rest \<rparr>))"

text \<open>\<^verbatim>\<open>handleDialAll\<close> up to its first wait.\<close>

definition click_dial_all :: "env \<Rightarrow> obj list \<Rightarrow> page \<Rightarrow> page" where
  "click_dial_all e rs p =
     (if isAutoDialing (app p) then p
      else queue_continue e (statusMap (app p)) rs
             (p\<lparr> app := setIsAutoDialing True (app p) \<rparr>))"

text \<open>The \<^verbatim>\<open>disabled\<close> attributes of the two buttons. The queue button also tests the two
  column names; without them there are no dial records.\<close>

definition call_button_disabled :: "state \<Rightarrow> obj \<Rightarrow> bool" where
  "call_button_disabled s r =
     (status_of (statusMap s) (record_key r) = Calling
      \<or> \<not> truthy (obj_get r ''from'') \<or> \<not> truthy (obj_get r ''to'') \<or> isAutoDialing s)"

definition queue_button_disabled :: "state \<Rightarrow> obj list \<Rightarrow> bool" where
  "queue_button_disabled s rs = (rs = [] \<or> isAutoDialing s)"

text \<open>What can happen to the page: a click on the button of a row, a click on the queue
  button, the answer to a call in flight, the timer of the queue. With \<open>ui\<close> set a click
  needs its button enabled; without it the handler may be invoked at any time.\<close>

datatype action = ClickCall obj | ClickDialAll | Arrive nat fetch_outcome | TimerFires

fun step :: "bool \<Rightarrow> env \<Rightarrow> obj list \<Rightarrow> page \<Rightarrow> action \<Rightarrow> page option" where
  "step ui e rs p (ClickCall r) =
     (if r \<in> set rs \<and> \<not> (ui \<and> call_button_disabled (app p) r)
      then Some (fst (start_call e r p)) else None)"
| "step ui e rs p ClickDialAll =
     (if \<not> (ui \<and> queue_button_disabled (app p) rs)
      then Some (click_dial_all e rs p) else None)"
| "step ui e rs p (Arrive n outcome) =
     (case map_of (pending p) n of
        None \<Rightarrow> None
      | Some r \<Rightarrow>
          let p1 = p\<lparr> app := finish_call e r outcome (app p),
                       pending := remove1 (n, r) (pending p) \<rparr>
          in Some (case queue p of
                     AwaitCall m snapshot rest \<Rightarrow>
                       if m = n
                       then p1\<lparr> app := delay 1500 (app p1), queue := AwaitDelay snapshot rest \<rparr>
                       else p1
                   | NoQueue \<Rightarrow> p1
                   | AwaitDelay snapshot rest \<Rightarrow> p1))"
| "step ui e rs p TimerFires =
     (case queue p of
        AwaitDelay snapshot rest \<Rightarrow> Some (queue_continue e snapshot rest p)
      | NoQueue \<Rightarrow> None
      | AwaitCall m snapshot rest \<Rightarrow> None)"

text \<open>A run: a list of events, each possible when its turn comes.\<close>

fun run :: "bool \<Rightarrow> env \<Rightarrow> obj list \<Rightarrow> action list \<Rightarrow> page \<Rightarrow> page option" where
  "run ui e rs [] p = Some p"
| "run ui e rs (a # acts) p =
     (case step ui e rs p a of None \<Rightarrow> None | Some p' \<Rightarrow> run ui e rs acts p')"

definition initial_page :: "string \<Rightarrow> page" where
  "initial_page script = \<lparr> app = initial_state script, pending = [], queue = NoQueue \<rparr>"

text \<open>The statuses a run sets under an id, and the status the table shows after it.\<close>

definition run_history ::
  "bool \<Rightarrow> env \<Rightarrow> obj list \<Rightarrow> action list \<Rightarrow> string \<Rightarrow> string \<Rightarrow> call_status list option" where
  "run_history ui e rs acts script k =
     map_option (\<lambda>p. history k (trace (app p))) (run ui e rs acts (initial_page script))"


text \<open>The transitions of a status that the specification allows.\<close>

fun allowed :: "call_status \<Rightarrow> call_status \<Rightarrow> bool" where
  "allowed Idle Calling = True"
| "allowed Calling Success = True"
| "allowed Calling Error = True"
| "allowed Success Calling = True"
| "allowed Error Calling = True"
| "allowed a b = False"

fun follows :: "(call_status \<Rightarrow> call_status \<Rightarrow> bool) \<Rightarrow> call_status \<Rightarrow> call_status list \<Rightarrow> bool" where
  "follows R a [] = True"
| "follows R a (b # bs) = (R a b \<and> follows R b bs)"

text \<open>No call is started for the id while it is \<open>Calling\<close>: \<open>Calling\<close> is never set twice
  in a row.\<close>

definition overlap_free :: "call_status list \<Rightarrow> bool" where
  "overlap_free h = follows (\<lambda>a b. \<not> (a = Calling \<and> b = Calling)) Idle h"







section \<open>Call API Endpoint\<close>

text \<open>The type the handler declares for the body; nothing checks a body against it. The
  voice instruction below is built from a script of this type.\<close>

record CallRequest =
  from_field :: "string option"
  to_field :: "string option"
  script_field :: "string option"

text \<open>The body of the request as \<^verbatim>\<open>request.json()\<close> delivers it: a rejection, the value
  \<^verbatim>\<open>null\<close>, or a value with its properties (a JSON string, number, boolean or array has
  none of the three properties the handler reads).\<close>

datatype request_body = InvalidJson | JsonNull | JsonBody obj

record process_env =
  TWILIO_ACCOUNT_SID :: "string option"
  TWILIO_AUTH_TOKEN :: "string option"
  TWILIO_VOICE_URL :: "string option"
  TWILIO_FALLBACK_MESSAGE :: "string option"
  TWILIO_STATUS_CALLBACK_URL :: "string option"

text \<open>\<^verbatim>\<open>s.replace(/c/g, rep)\<close> for a single character \<open>c\<close>.\<close>

definition replace_all :: "char \<Rightarrow> string \<Rightarrow> string \<Rightarrow> string" where
  "replace_all c rep s = concat (map (\<lambda>x. if x = c then rep else [x]) s)"

definition escapeForTwiml :: "string \<Rightarrow> string" where
  "escapeForTwiml input =
     replace_all (CHR 0x27) ''&apos;''
       (replace_all (CHR 0x22) ''&quot;''
         (replace_all CHR ''>'' ''&gt;''
           (replace_all CHR ''<'' ''&lt;''
             (replace_all CHR ''&'' ''&amp;'' input))))"

text \<open>The escape of one character, as the specification lists them.\<close>

definition escape_char :: "char \<Rightarrow> string" where
  "escape_char x =
     (if x = CHR ''&'' then ''&amp;''
      else if x = CHR ''<'' then ''&lt;''
      else if x = CHR ''>'' then ''&gt;''
      else if x = CHR 0x22 then ''&quot;''
      else if x = CHR 0x27 then ''&apos;''
      else [x])"

text \<open>The template literal both branches of \<^verbatim>\<open>buildTwiml\<close> return.\<close>

definition say_document :: "string \<Rightarrow> string" where
  "say_document text = ''<Response><Say>'' @ escapeForTwiml text @ ''</Say></Response>''"

text \<open>A string or \<^verbatim>\<open>undefined\<close> is falsy when it is missing or empty.\<close>

definition falsy_str :: "string option \<Rightarrow> bool" where
  "falsy_str x = (case x of None \<Rightarrow> True | Some t \<Rightarrow> t = [])"

definition buildTwiml :: "process_env \<Rightarrow> string option \<Rightarrow> string option" where
  "buildTwiml penv script =
     (let trimmed = map_option trim script in
      if falsy_str trimmed then
        (let fallback = (case TWILIO_FALLBACK_MESSAGE penv of None \<Rightarrow> [] | Some m \<Rightarrow> m)
         in if fallback = [] then None else Some (say_document fallback))
      else (case trimmed of None \<Rightarrow> None | Some t \<Rightarrow> Some (say_document t)))"

record create_params =
  cp_to :: string
  cp_from :: string
  cp_url :: "string option"
  cp_twiml :: "string option"
  cp_statusCallback :: "string option"
  cp_statusCallbackEvent :: "string list"
  cp_statusCallbackMethod :: string

text \<open>The argument of \<^verbatim>\<open>client.calls.create\<close>.\<close>

definition call_params :: "process_env \<Rightarrow> CallRequest \<Rightarrow> string \<Rightarrow> string \<Rightarrow> create_params" where
  "call_params penv request from_t to_t =
     \<lparr> cp_to = to_t,
       cp_from = from_t,
       cp_url = (if \<not> falsy_str (TWILIO_VOICE_URL penv) \<and> falsy_str (script_field request)
                 then TWILIO_VOICE_URL penv else None),
       cp_twiml = buildTwiml penv (script_field request),
       cp_statusCallback = TWILIO_STATUS_CALLBACK_URL penv,
       cp_statusCallbackEvent = [''initiated'', ''ringing'', ''answered'', ''completed''],
       cp_statusCallbackMethod = ''POST'' \<rparr>"

text \<open>The provider's library: \<^verbatim>\<open>twilio(sid, token)\<close> constructs a client or throws, and
  \<^verbatim>\<open>client.calls.create\<close> creates the call and returns its identifier, or throws. The
  runtime gives the message of the \<^verbatim>\<open>TypeError\<close> raised when \<^verbatim>\<open>trim\<close> is called on a
  value that has no such method.\<close>

datatype provider_result = Created string | Failed thrown

record runtime =
  twilio :: "string \<Rightarrow> string \<Rightarrow> (create_params \<Rightarrow> provider_result) option"
  trim_type_error :: string

datatype response_body = ErrorBody string | SidBody string

text \<open>What the handler does: it returns a response, or an exception leaves it.\<close>

datatype handler_result = Responds nat response_body | Throws

text \<open>\<^verbatim>\<open>value?.trim()\<close>: \<^verbatim>\<open>undefined\<close> for a missing value, the trimmed text for a
  string, a \<^verbatim>\<open>TypeError\<close> (here \<open>None\<close>) for any other value.\<close>

fun optional_trim :: "jsval \<Rightarrow> string option option" where
  "optional_trim Undefined = Some None"
| "optional_trim Null = Some None"
| "optional_trim (Str t) = Some (Some (trim t))"
| "optional_trim v = None"

text \<open>A script that \<^verbatim>\<open>buildTwiml\<close> can trim, at its declared type; \<open>None\<close> for a script on
  which \<^verbatim>\<open>script?.trim()\<close> throws.\<close>

fun typed_script :: "jsval \<Rightarrow> string option option" where
  "typed_script Undefined = Some None"
| "typed_script Null = Some None"
| "typed_script (Str t) = Some (Some t)"
| "typed_script v = None"

text \<open>The text of a variable that was tested and found set.\<close>

definition set_value :: "string option \<Rightarrow> string" where
  "set_value x = (case x of None \<Rightarrow> [] | Some v \<Rightarrow> v)"

text \<open>The handler. \<^verbatim>\<open>payload.from?.trim()\<close> and \<^verbatim>\<open>payload.to?.trim()\<close> stand before the
  \<^verbatim>\<open>try\<close> block, and so does the construction of the client: what they throw leaves the
  handler. The argument of \<^verbatim>\<open>calls.create\<close> is built inside the \<^verbatim>\<open>try\<close> block: what
  \<^verbatim>\<open>buildTwiml\<close> throws there is answered with 500.\<close>

definition POST :: "process_env \<Rightarrow> runtime \<Rightarrow> request_body \<Rightarrow> handler_result" where
  "POST penv rt body =
     (if falsy_str (TWILIO_ACCOUNT_SID penv) \<or> falsy_str (TWILIO_AUTH_TOKEN penv)
      then Responds 500 (ErrorBody ''Missing Twilio credentials'')
      else
        (case body of
           InvalidJson \<Rightarrow> Responds 400 (ErrorBody ''Invalid JSON body'')
         | JsonNull \<Rightarrow> Throws
         | JsonBody payload \<Rightarrow>
             (case optional_trim (obj_get payload ''from'') of
                None \<Rightarrow> Throws
              | Some from_t \<Rightarrow>
                  (case optional_trim (obj_get payload ''to'') of
                     None \<Rightarrow> Throws
                   | Some to_t \<Rightarrow>
                       if falsy_str from_t \<or> falsy_str to_t
                       then Responds 400 (ErrorBody ''Both `from` and `to` numbers are required'')
                       else
                         (case twilio rt (set_value (TWILIO_ACCOUNT_SID penv))
                                           (set_value (TWILIO_AUTH_TOKEN penv)) of
                            None \<Rightarrow> Throws
                          | Some create \<Rightarrow>
                              (case typed_script (obj_get payload ''script'') of
                                 None \<Rightarrow> Responds 500 (ErrorBody (trim_type_error rt))
                               | Some script \<Rightarrow>
                                   (case create
                                           (call_params penv
                                              \<lparr> from_field = from_t, to_field = to_t,
                                                script_field = script \<rparr>
                                              (set_value from_t) (set_value to_t)) of
                                      Created call_sid \<Rightarrow> Responds 200 (SidBody call_sid)
                                    | Failed (ErrorObj m) \<Rightarrow> Responds 500 (ErrorBody m)
                                    | Failed NonError \<Rightarrow>
                                        Responds 500 (ErrorBody ''Unable to create call''))))))))"

section \<open>Sample data\<close>

text \<open>The sheet of the end-to-end scenario: three rows under the headers
  \<^verbatim>\<open>agent_number\<close> and \<^verbatim>\<open>customer_number\<close>, the third with an empty caller cell.\<close>

definition sample_workbook :: ParsedWorkbook where
  "sample_workbook =
     \<lparr> columns = [''agent_number'', ''customer_number''],
       rows = [[(''agent_number'', Str ''+15550001111''), (''customer_number'', Str ''+15552223333'')],
               [(''agent_number'', Num ''5550004444''), (''customer_number'', Num ''14445556666'')],
               [(''agent_number'', Str []), (''customer_number'', Str ''+15559998888'')]],
       suggestedFromColumn = Some ''agent_number'',
       suggestedToColumn = Some ''customer_number'' \<rparr>"

text \<open>A row of a sheet whose number columns are themselves headed \<^verbatim>\<open>from\<close> and \<^verbatim>\<open>to\<close>.\<close>

definition sample_from_to_row :: obj where
  "sample_from_to_row = [(''from'', Str ''(555) 000-4444''), (''to'', Str ''14445556666'')]"

text \<open>The record of a row with a column \<^verbatim>\<open>Notes\<close> that holds \<^verbatim>\<open>Hello\<close>.\<close>

definition sample_notes_record :: obj where
  "sample_notes_record =
     make_record ''agent_number'' ''customer_number'' 0
       [(''agent_number'', Str ''+15550001111''),
        (''customer_number'', Str ''+15552223333''),
        (''Notes'', Str ''Hello'')]"

text \<open>The record of a row whose columns \<^verbatim>\<open>Script\<close> and \<^verbatim>\<open>Call Notes\<close> are blank.\<close>

definition sample_blank_script_record :: obj where
  "sample_blank_script_record =
     make_record ''agent_number'' ''customer_number'' 1
       [(''agent_number'', Str ''+15550001111''),
        (''customer_number'', Str ''+15552223333''),
        (''Script'', Str ''   ''),
        (''Call Notes'', Null)]"

text \<open>A network that creates every call but those to \<^verbatim>\<open>+15559998888\<close>, which the server
  refuses with an error text.\<close>

definition sample_env :: env where
  "sample_env =
     \<lparr> date_now = (\<lambda>n. 1000 + n),
       fetch = (\<lambda>n p. if p_to p = Str ''+15559998888''
                       then Response False (Parsed [(''error'', Str ''Number is not verified'')])
                       else Response True (Parsed [(''sid'', Str ''CA01'')])),
       null_destructure_message =
         (\<lambda>property. ''Cannot destructure property '' @ property @ '' of null'') \<rparr>"

text \<open>A queue of three dialable records, and the page with the second already successful.\<close>

definition sample_queue :: "obj list" where
  "sample_queue =
     dialRecords
       (Some \<lparr> columns = [''agent_number'', ''customer_number''],
               rows = [[(''agent_number'', Str ''+15550001111''), (''customer_number'', Str ''+15552223333'')],
                       [(''agent_number'', Num ''5550004444''), (''customer_number'', Num ''14445556666'')],
                       [(''agent_number'', Str ''555-000-7777''), (''customer_number'', Str ''+15559998888'')]],
               suggestedFromColumn = None, suggestedToColumn = None \<rparr>)
       (Some ''agent_number'') (Some ''customer_number'')"




text \<open>The record of a row whose destination the sample network refuses.\<close>

definition sample_refused_record :: obj where
  "sample_refused_record =
     make_record ''agent_number'' ''customer_number'' 2
       [(''agent_number'', Str ''555-000-7777''), (''customer_number'', Str ''+15559998888'')]"

text \<open>A deployment with credentials and a voice URL but no fallback message, and a request
  whose script is a single space.\<close>

definition sample_penv :: process_env where
  "sample_penv =
     \<lparr> TWILIO_ACCOUNT_SID = Some ''AC00000000000000000000000000000000'',
       TWILIO_AUTH_TOKEN = Some ''token'',
       TWILIO_VOICE_URL = Some ''https://example.com/voice.xml'',
       TWILIO_FALLBACK_MESSAGE = None,
       TWILIO_STATUS_CALLBACK_URL = None \<rparr>"

definition sample_blank_script_request :: CallRequest where
  "sample_blank_script_request =
     \<lparr> from_field = Some ''+15550001111'', to_field = Some ''+15552223333'',
       script_field = Some '' '' \<rparr>"

text \<open>A body without a destination, a body with both numbers, a body whose \<^verbatim>\<open>from\<close> is a
  number (as the page sends it for a number cell in a column headed \<^verbatim>\<open>from\<close>), and a
  provider that creates every call.\<close>

definition sample_no_destination_body :: obj where
  "sample_no_destination_body = [(''from'', Str ''+15550001111''), (''to'', Str ''  '')]"

definition sample_body :: obj where
  "sample_body =
     [(''from'', Str '' +15550001111''), (''to'', Str ''+15552223333 ''),
      (''script'', Str ''<Tom & Jerry>'')]"

definition sample_numeric_from_body :: obj where
  "sample_numeric_from_body =
     [(''from'', Num ''5550001111''), (''to'', Str ''+15552223333''), (''script'', Str [])]"

definition sample_create :: "create_params \<Rightarrow> provider_result" where
  "sample_create params = Created ''CA01''"

definition sample_runtime :: runtime where
  "sample_runtime =
     \<lparr> twilio = (\<lambda>account token. Some sample_create),
       trim_type_error = ''script?.trim is not a function'' \<rparr>"


text \<open>A deployment without credentials.\<close>

definition sample_penv_without_credentials :: process_env where
  "sample_penv_without_credentials =
     \<lparr> TWILIO_ACCOUNT_SID = None, TWILIO_AUTH_TOKEN = None, TWILIO_VOICE_URL = None,
       TWILIO_FALLBACK_MESSAGE = None, TWILIO_STATUS_CALLBACK_URL = None \<rparr>"

text \<open>A server that answers 200 with the body \<^verbatim>\<open>{}\<close>, and a network that is down.\<close>

definition sample_env_no_identifier :: env where
  "sample_env_no_identifier =
     \<lparr> date_now = (\<lambda>n. 1000 + n),
       fetch = (\<lambda>n p. Response True (Parsed [])),
       null_destructure_message =
         (\<lambda>property. ''Cannot destructure property '' @ property @ '' of null'') \<rparr>"

definition sample_env_offline :: env where
  "sample_env_offline =
     \<lparr> date_now = (\<lambda>n. 1000 + n),
       fetch = (\<lambda>n p. Rejected (ErrorObj ''Failed to fetch'')),
       null_destructure_message =
         (\<lambda>property. ''Cannot destructure property '' @ property @ '' of null'') \<rparr>"

text \<open>The first record of the sample queue, and two answers of the network.\<close>

definition sample_first_record :: obj where
  "sample_first_record =
     make_record ''agent_number'' ''customer_number'' 0
       [(''agent_number'', Str ''+15550001111''), (''customer_number'', Str ''+15552223333'')]"

definition sample_created :: fetch_outcome where
  "sample_created = Response True (Parsed [(''sid'', Str ''CA01'')])"



text \<open>A run in which the queue is started while the call of the first row is in flight.\<close>

definition sample_overlapping_run :: "action list" where
  "sample_overlapping_run =
     [ClickCall sample_first_record, ClickDialAll, Arrive 1 sample_created,
      Arrive 4 sample_created]"

section \<open>Properties\<close>

lemma is_digit_not_space: "is_digit c \<Longrightarrow> \<not> is_space c"
  by (auto simp: is_digit_def is_space_def)

lemma filter_dropWhile_space:
  "filter is_digit (dropWhile is_space s) = filter is_digit s"
  by (induction s) (auto dest: is_digit_not_space)

lemma digits_of_trim: "digits_of (trim s) = digits_of s"
proof -
  have "filter is_digit (rev (dropWhile is_space (rev (dropWhile is_space s))))
        = rev (filter is_digit (dropWhile is_space (rev (dropWhile is_space s))))"
    by (simp add: rev_filter)
  also have "\<dots> = rev (filter is_digit (rev (dropWhile is_space s)))"
    by (simp add: filter_dropWhile_space)
  also have "\<dots> = filter is_digit (dropWhile is_space s)"
    by (simp add: rev_filter)
  also have "\<dots> = filter is_digit s"
    by (rule filter_dropWhile_space)
  finally show ?thesis
    by (simp add: digits_of_def trim_def)
qed

lemma strip_plus_digits:
  "filter (\<lambda>c. c \<noteq> CHR ''+'') (filter (\<lambda>c. is_digit c \<or> c = CHR ''+'') s) = digits_of s"
  by (induction s) (auto simp: digits_of_def is_digit_def)

lemma startsWith_single: "startsWith s [c] = (s \<noteq> [] \<and> hd s = c)"
  by (cases s) (auto simp: startsWith_def)

text \<open>
  C2. For every cell value the Phone Normalizer returns the empty string for a nullish or
  blank input; for a trimmed text that starts with a plus sign, a plus sign followed by
  exactly the digits of the input; otherwise the digits of the input, with a plus sign in
  front when they are eleven and start with 1, with +1 in front when they are ten, and bare
  in every other case.
\<close>

theorem normalizePhone_meets_spec: "normalizePhone v = normalizePhone_spec v"
proof (cases "nullish v")
  case True
  then show ?thesis
    by (cases v) (simp_all add: normalizePhone_def normalizePhone_spec_def)
next
  case False
  then have nn: "v \<noteq> Null" "v \<noteq> Undefined"
    by auto
  have d: "digits_of (trim (js_String v)) = digits_of (js_String v)"
    by (rule digits_of_trim)
  have nodigit_plus: "\<not> startsWith (digits_of (js_String v)) ''+''"
  proof (cases "digits_of (js_String v)")
    case Nil
    then show ?thesis by (simp add: startsWith_def)
  next
    case (Cons c cs)
    then have "c \<in> set (digits_of (js_String v))" by simp
    then have "is_digit c" by (simp add: digits_of_def)
    then have "c \<noteq> CHR ''+''" by (auto simp: is_digit_def)
    with Cons show ?thesis by (simp add: startsWith_def)
  qed
  have "normalizePhone v =
          (if trim (js_String v) = [] then []
           else if startsWith (trim (js_String v)) ''+''
                then ''+'' @ digits_of (trim (js_String v))
           else if length (digits_of (trim (js_String v))) = 11
                   \<and> startsWith (digits_of (trim (js_String v))) ''1''
                then ''+'' @ digits_of (trim (js_String v))
           else if length (digits_of (trim (js_String v))) = 10
                then ''+1'' @ digits_of (trim (js_String v))
           else digits_of (trim (js_String v)))"
    unfolding normalizePhone_def Let_def strip_plus_digits
    using nn nodigit_plus by (simp del: filter_filter)
  also have "\<dots> = normalizePhone_spec v"
    unfolding d normalizePhone_spec_def
    using False by (auto simp: startsWith_single)
  finally show ?thesis .
qed

subsection \<open>Objects\<close>

lemma obj_get_set: "obj_get (obj_set ob k v) k' = (if k' = k then v else obj_get ob k')"
  by (induction ob) auto

lemma obj_get_spread_other:
  "k \<notin> fst ` set src \<Longrightarrow> obj_get (obj_spread base src) k = obj_get base k"
  by (induction src arbitrary: base) (auto simp: obj_get_set)

lemma obj_get_spread_member:
  "distinct (map fst src) \<Longrightarrow> (k, v) \<in> set src \<Longrightarrow> obj_get (obj_spread base src) k = v"
proof (induction src arbitrary: base)
  case Nil
  then show ?case by simp
next
  case (Cons p src)
  obtain k' v' where p: "p = (k', v')" by (cases p)
  show ?case
  proof (cases "k' = k")
    case True
    with Cons.prems p have "k \<notin> fst ` set src" by auto
    moreover from True Cons.prems p have "v' = v" by (auto simp: image_iff)
    ultimately show ?thesis using p True
      by (simp add: obj_get_spread_other obj_get_set)
  next
    case False
    with Cons.prems p have "(k, v) \<in> set src" "distinct (map fst src)" by auto
    then show ?thesis using p Cons.IH by simp
  qed
qed

lemma obj_get_member:
  "distinct (map fst ob) \<Longrightarrow> (k, v) \<in> set ob \<Longrightarrow> obj_get ob k = v"
  by (induction ob) (auto simp: image_iff)

lemma obj_get_absent: "k \<notin> fst ` set ob \<Longrightarrow> obj_get ob k = Undefined"
  by (induction ob) auto

subsection \<open>Dial Record Builder\<close>

lemma normalizePhone_Undefined: "normalizePhone Undefined = []"
  by (simp add: normalizePhone_def)

lemma build_entry_None_iff:
  "(build_entry fc tc i row = None)
     = (normalizePhone (obj_get row fc) = [] \<or> normalizePhone (obj_get row tc) = [])"
  by (simp add: build_entry_def Let_def)

lemma build_entry_dialable:
  "build_entry fc tc i row
     = (if dialable_row fc tc row then Some (make_record fc tc i row) else None)"
  by (auto simp: build_entry_def dialable_row_def Let_def)

lemma build_entry_Some:
  "build_entry fc tc i row = Some r \<Longrightarrow>
     r = make_record fc tc i row
     \<and> normalizePhone (obj_get row fc) \<noteq> [] \<and> normalizePhone (obj_get row tc) \<noteq> []"
  by (auto simp: build_entry_def Let_def split: if_splits)

lemma filter_Boolean_map_index:
  "filter_Boolean (map_index (build_entry fc tc) i rs)
     = map (\<lambda>(j, row). make_record fc tc j row)
         (filter (\<lambda>(j, row). dialable_row fc tc row) (enumerate i rs))"
  by (induction rs arbitrary: i) (auto simp: build_entry_dialable)

lemma length_filter_Boolean_map_index:
  "length (filter_Boolean (map_index (build_entry fc tc) i rs))
     = length (filter (dialable_row fc tc) rs)"
  by (induction rs arbitrary: i) (auto simp: build_entry_dialable)

lemma dialRecords_chosen:
  "fc \<noteq> [] \<Longrightarrow> tc \<noteq> [] \<Longrightarrow>
   dialRecords (Some wb) (Some fc) (Some tc)
     = filter_Boolean (map_index (build_entry fc tc) 0 (rows wb))"
  by (simp add: dialRecords_def)

text \<open>
  C1. With a workbook and two chosen columns, a row is left out exactly when the Phone
  Normalizer gives an empty string for its from-cell or its to-cell; every other row gives
  exactly one record; the records stand in the order of their rows; and the number of rows
  is the number of records plus the number of rows left out.
\<close>

theorem dialRecords_excludes_iff:
  assumes "fc \<noteq> []" and "tc \<noteq> []"
  shows "(\<forall>i row. (build_entry fc tc i row = None)
                   = (normalizePhone (obj_get row fc) = [] \<or> normalizePhone (obj_get row tc) = []))
       \<and> dialRecords (Some wb) (Some fc) (Some tc)
           = map (\<lambda>(i, row). make_record fc tc i row)
               (filter (\<lambda>(i, row). normalizePhone (obj_get row fc) \<noteq> []
                                   \<and> normalizePhone (obj_get row tc) \<noteq> [])
                  (enumerate 0 (rows wb)))
       \<and> length (rows wb)
           = length (dialRecords (Some wb) (Some fc) (Some tc))
             + length (filter (\<lambda>row. normalizePhone (obj_get row fc) = []
                                     \<or> normalizePhone (obj_get row tc) = []) (rows wb))"
proof -
  have a: "\<forall>i row. (build_entry fc tc i row = None)
                   = (normalizePhone (obj_get row fc) = [] \<or> normalizePhone (obj_get row tc) = [])"
    by (simp add: build_entry_None_iff)
  have b: "dialRecords (Some wb) (Some fc) (Some tc)
           = map (\<lambda>(i, row). make_record fc tc i row)
               (filter (\<lambda>(i, row). normalizePhone (obj_get row fc) \<noteq> []
                                   \<and> normalizePhone (obj_get row tc) \<noteq> [])
                  (enumerate 0 (rows wb)))"
    using assms by (simp add: dialRecords_chosen filter_Boolean_map_index dialable_row_def)
  have "length (rows wb)
        = length (filter (dialable_row fc tc) (rows wb))
          + length (filter (\<lambda>row. \<not> dialable_row fc tc row) (rows wb))"
    by (rule sum_length_filter_compl [symmetric])
  then have c: "length (rows wb)
           = length (dialRecords (Some wb) (Some fc) (Some tc))
             + length (filter (\<lambda>row. normalizePhone (obj_get row fc) = []
                                     \<or> normalizePhone (obj_get row tc) = []) (rows wb))"
    using assms
    by (simp add: dialRecords_chosen length_filter_Boolean_map_index dialable_row_def)
  from a b c show ?thesis by blast
qed

text \<open>The sheet of the end-to-end scenario: three rows, two records, one row left out.\<close>

theorem dialRecords_excludes_iff_witness:
  "''agent_number'' \<noteq> [] \<and> ''customer_number'' \<noteq> []
   \<and> length (rows sample_workbook) = 3
   \<and> length (dialRecords (Some sample_workbook) (Some ''agent_number'') (Some ''customer_number'')) = 2
   \<and> length (rows sample_workbook)
       = length (dialRecords (Some sample_workbook) (Some ''agent_number'') (Some ''customer_number''))
         + length (filter (\<lambda>row. normalizePhone (obj_get row ''agent_number'') = []
                                 \<or> normalizePhone (obj_get row ''customer_number'') = [])
                     (rows sample_workbook))"
proof -
  have h1: "''agent_number'' \<noteq> []" and h2: "''customer_number'' \<noteq> []"
    by simp_all
  have n: "length (rows sample_workbook) = 3"
    by (simp add: sample_workbook_def)
  have m: "length (dialRecords (Some sample_workbook) (Some ''agent_number'')
                     (Some ''customer_number'')) = 2"
    by code_simp
  from dialRecords_excludes_iff [OF h1 h2, of sample_workbook] h1 h2 n m
  show ?thesis by blast
qed

lemma normalized_key_present:
  "normalizePhone (obj_get row c) \<noteq> [] \<Longrightarrow> c \<in> fst ` set row"
proof (rule ccontr)
  assume a: "normalizePhone (obj_get row c) \<noteq> []" and b: "c \<notin> fst ` set row"
  from b have "obj_get row c = Undefined" by (rule obj_get_absent)
  with a show False by (simp add: normalizePhone_Undefined)
qed

text \<open>
  C10. The row is spread into the record after the derived fields: under every key the row
  has, \<^verbatim>\<open>id\<close>, \<^verbatim>\<open>from\<close>, \<^verbatim>\<open>to\<close>, \<^verbatim>\<open>displayFrom\<close>, \<^verbatim>\<open>displayTo\<close> and \<^verbatim>\<open>rowIndex\<close>
  among them, the record holds the raw cell. So when the chosen from-column is named
  \<^verbatim>\<open>from\<close> (or the to-column \<^verbatim>\<open>to\<close>), the field holds the cell as it stands in the sheet,
  although the row was kept on its normalized value; only a row without such a column
  keeps the normalized number.
\<close>

theorem spread_row_overrides_derived:
  assumes "distinct (map fst row)" and "build_entry fc tc i row = Some r"
  shows "(\<forall>k v. (k, v) \<in> set row \<longrightarrow> obj_get r k = v)
       \<and> (fc = ''from'' \<longrightarrow> obj_get r ''from'' = obj_get row fc)
       \<and> (tc = ''to'' \<longrightarrow> obj_get r ''to'' = obj_get row tc)
       \<and> (''from'' \<notin> fst ` set row \<longrightarrow> obj_get r ''from'' = Str (normalizePhone (obj_get row fc)))
       \<and> (''to'' \<notin> fst ` set row \<longrightarrow> obj_get r ''to'' = Str (normalizePhone (obj_get row tc)))"
proof -
  from assms(2) have r: "r = make_record fc tc i row"
    and nf: "normalizePhone (obj_get row fc) \<noteq> []"
    and nt: "normalizePhone (obj_get row tc) \<noteq> []"
    using build_entry_Some by blast+
  have member: "obj_get r k = v" if "(k, v) \<in> set row" for k v
    unfolding r make_record_def Let_def
    using assms(1) that by (rule obj_get_spread_member)
  have same: "obj_get r k = obj_get row k" if "k \<in> fst ` set row" for k
  proof -
    from that obtain v where kv: "(k, v) \<in> set row" by auto
    then have "obj_get row k = v" using assms(1) by (simp add: obj_get_member)
    with member [OF kv] show ?thesis by simp
  qed
  have from_raw: "fc = ''from'' \<longrightarrow> obj_get r ''from'' = obj_get row fc"
    using same [of fc] normalized_key_present [OF nf] by auto
  have to_raw: "tc = ''to'' \<longrightarrow> obj_get r ''to'' = obj_get row tc"
    using same [of tc] normalized_key_present [OF nt] by auto
  have from_derived:
    "''from'' \<notin> fst ` set row \<longrightarrow> obj_get r ''from'' = Str (normalizePhone (obj_get row fc))"
    unfolding r make_record_def Let_def by (simp add: obj_get_spread_other)
  have to_derived:
    "''to'' \<notin> fst ` set row \<longrightarrow> obj_get r ''to'' = Str (normalizePhone (obj_get row tc))"
    unfolding r make_record_def Let_def by (simp add: obj_get_spread_other)
  from member from_raw to_raw from_derived to_derived show ?thesis by blast
qed

text \<open>A sheet headed \<^verbatim>\<open>from\<close> and \<^verbatim>\<open>to\<close>: the record keeps \<^verbatim>\<open>(555) 000-4444\<close> as its
  \<^verbatim>\<open>from\<close>, not the normalized \<^verbatim>\<open>+15550004444\<close>.\<close>

theorem spread_row_overrides_derived_witness:
  "distinct (map fst sample_from_to_row)
   \<and> build_entry ''from'' ''to'' 0 sample_from_to_row
       = Some (make_record ''from'' ''to'' 0 sample_from_to_row)
   \<and> obj_get (make_record ''from'' ''to'' 0 sample_from_to_row) ''from'' = Str ''(555) 000-4444''
   \<and> normalizePhone (obj_get sample_from_to_row ''from'') = ''+15550004444''"
proof -
  have h1: "distinct (map fst sample_from_to_row)"
    by (simp add: sample_from_to_row_def)
  have h2: "build_entry ''from'' ''to'' 0 sample_from_to_row
              = Some (make_record ''from'' ''to'' 0 sample_from_to_row)"
    by code_simp
  have raw: "obj_get sample_from_to_row ''from'' = Str ''(555) 000-4444''"
    by (simp add: sample_from_to_row_def)
  have norm: "normalizePhone (obj_get sample_from_to_row ''from'') = ''+15550004444''"
    by code_simp
  from spread_row_overrides_derived [OF h1 h2] raw
  have "obj_get (make_record ''from'' ''to'' 0 sample_from_to_row) ''from'' = Str ''(555) 000-4444''"
    by simp
  with h1 h2 norm show ?thesis by blast
qed

subsection \<open>Script resolution\<close>

lemma startsWith_iff: "startsWith s p = (\<exists>b. s = p @ b)"
proof
  assume "startsWith s p"
  then have "s = p @ drop (length p) s"
    unfolding startsWith_def by (metis append_take_drop_id)
  then show "\<exists>b. s = p @ b" ..
next
  assume "\<exists>b. s = p @ b"
  then show "startsWith s p" by (auto simp: startsWith_def)
qed

lemma includes_str_iff: "includes_str s p = (\<exists>a b. s = a @ p @ b)"
proof (induction s)
  case Nil
  then show ?case by auto
next
  case (Cons c cs)
  show ?case
  proof
    assume "includes_str (c # cs) p"
    then consider "startsWith (c # cs) p" | "includes_str cs p" by auto
    then show "\<exists>a b. c # cs = a @ p @ b"
    proof cases
      case 1
      then obtain b where "c # cs = p @ b" by (auto simp: startsWith_iff)
      then have "c # cs = [] @ p @ b" by simp
      then show ?thesis by blast
    next
      case 2
      with Cons.IH obtain a b where "cs = a @ p @ b" by auto
      then have "c # cs = (c # a) @ p @ b" by simp
      then show ?thesis by blast
    qed
  next
    assume "\<exists>a b. c # cs = a @ p @ b"
    then obtain a b where ab: "c # cs = a @ p @ b" by auto
    show "includes_str (c # cs) p"
    proof (cases a)
      case Nil
      with ab have "startsWith (c # cs) p" by (auto simp: startsWith_iff)
      then show ?thesis by simp
    next
      case (Cons a0 a')
      with ab have "cs = a' @ p @ b" by simp
      with Cons.IH have "includes_str cs p" by auto
      then show ?thesis by simp
    qed
  qed
qed

lemma includes_str_rev: "includes_str (rev s) (rev p) = includes_str s p"
proof -
  have "(\<exists>a b. rev s = a @ rev p @ b) = (\<exists>a b. s = a @ p @ b)"
  proof
    assume "\<exists>a b. rev s = a @ rev p @ b"
    then obtain a b where "rev s = a @ rev p @ b" by auto
    then have "rev (rev s) = rev (a @ rev p @ b)" by simp
    then have "s = rev b @ p @ rev a" by simp
    then show "\<exists>a b. s = a @ p @ b" by blast
  next
    assume "\<exists>a b. s = a @ p @ b"
    then obtain a b where "s = a @ p @ b" by auto
    then have "rev s = rev b @ rev p @ rev a" by simp
    then show "\<exists>a b. rev s = a @ rev p @ b" by blast
  qed
  then show ?thesis by (simp add: includes_str_iff)
qed

lemma includes_str_skip_char:
  assumes "c \<notin> set p" and "p \<noteq> []"
  shows "includes_str (c # s) p = includes_str s p"
proof -
  have "\<not> startsWith (c # s) p"
  proof
    assume "startsWith (c # s) p"
    then obtain b where "c # s = p @ b" by (auto simp: startsWith_iff)
    with assms(2) have "hd p = c" by (cases p) auto
    with assms show False by (cases p) auto
  qed
  then show ?thesis by simp
qed

lemma includes_str_skip_prefix:
  assumes "\<forall>c \<in> set a. c \<notin> set p" and "p \<noteq> []"
  shows "includes_str (a @ s) p = includes_str s p"
  using assms
proof (induction a)
  case Nil
  then show ?case by simp
next
  case (Cons c a)
  then have "includes_str (c # (a @ s)) p = includes_str (a @ s) p"
    by (intro includes_str_skip_char) auto
  with Cons show ?case by simp
qed

lemma includes_str_skip_suffix:
  assumes "\<forall>c \<in> set b. c \<notin> set p" and "p \<noteq> []"
  shows "includes_str (s @ b) p = includes_str s p"
proof -
  have "includes_str (s @ b) p = includes_str (rev b @ rev s) (rev p)"
    using includes_str_rev [of "s @ b" p] by simp
  also have "\<dots> = includes_str (rev s) (rev p)"
    using assms by (intro includes_str_skip_prefix) auto
  also have "\<dots> = includes_str s p"
    by (rule includes_str_rev)
  finally show ?thesis .
qed

lemma trim_decompose:
  "\<exists>a b. s = a @ trim s @ b \<and> (\<forall>c \<in> set a. is_space c) \<and> (\<forall>c \<in> set b. is_space c)"
proof -
  let ?a = "takeWhile is_space s"
  let ?d = "dropWhile is_space s"
  let ?b = "rev (takeWhile is_space (rev ?d))"
  have "trim s @ ?b = rev (takeWhile is_space (rev ?d) @ dropWhile is_space (rev ?d))"
    unfolding trim_def rev_append ..
  also have "\<dots> = rev (rev ?d)"
    unfolding takeWhile_dropWhile_id ..
  finally have "trim s @ ?b = ?d" by simp
  then have "s = ?a @ trim s @ ?b" by simp
  moreover have "\<forall>c \<in> set ?a. is_space c" by (auto dest: set_takeWhileD)
  moreover have "\<forall>c \<in> set ?b. is_space c" by (auto dest: set_takeWhileD)
  ultimately show ?thesis by blast
qed

lemma lower_char_space: "is_space c \<Longrightarrow> lower_char c = c"
  by (auto simp: is_space_def lower_char_def)

lemma space_not_in_preferred:
  "is_space c \<Longrightarrow> p \<in> set preferredKeys \<Longrightarrow> c \<notin> set p"
  by (auto simp: is_space_def preferredKeys_def)

lemma includes_lower_trim:
  assumes "p \<in> set preferredKeys"
  shows "includes_str (toLowerCase (trim key)) p = includes_str (toLowerCase key) p"
proof -
  obtain a b where key: "key = a @ trim key @ b"
    and a: "\<forall>c \<in> set a. is_space c" and b: "\<forall>c \<in> set b. is_space c"
    using trim_decompose by blast
  from assms have ne: "p \<noteq> []" by (auto simp: preferredKeys_def)
  have la: "\<forall>c \<in> set (toLowerCase a). c \<notin> set p"
    using a assms by (auto simp: toLowerCase_def lower_char_space space_not_in_preferred)
  have lb: "\<forall>c \<in> set (toLowerCase b). c \<notin> set p"
    using b assms by (auto simp: toLowerCase_def lower_char_space space_not_in_preferred)
  have "toLowerCase key = toLowerCase a @ toLowerCase (trim key) @ toLowerCase b"
    using key unfolding toLowerCase_def by (metis map_append)
  then have "includes_str (toLowerCase key) p
             = includes_str (toLowerCase a @ toLowerCase (trim key) @ toLowerCase b) p"
    by simp
  also have "\<dots> = includes_str (toLowerCase (trim key) @ toLowerCase b) p"
    using la ne by (rule includes_str_skip_prefix)
  also have "\<dots> = includes_str (toLowerCase (trim key)) p"
    using lb ne by (rule includes_str_skip_suffix)
  finally show ?thesis by simp
qed

lemma name_matches_trim:
  "list_ex (\<lambda>candidate. includes_str (toLowerCase (trim key)) candidate) preferredKeys
     = name_matches key"
  unfolding name_matches_def list_ex_iff by (auto simp: includes_lower_trim)

lemma cell_text_eq: "trim (js_String (nullish_or val (Str []))) = cell_text val"
  by (cases val) (simp_all add: nullish_or_def cell_text_def trim_def)

lemma findRowScript_find:
  "findRowScript record
     = map_option (\<lambda>(key, val). cell_text val)
         (List.find (\<lambda>(key, val). name_matches key \<and> cell_text val \<noteq> []) record)"
  by (induction "record" rule: findRowScript.induct) (auto simp: name_matches_trim cell_text_eq)

lemma resolve_script_eq: "resolve_script record global = resolve_script_spec record global"
  unfolding resolve_script_def resolve_script_spec_def findRowScript_find
  by (auto split: option.splits dest: find_Some_iff [THEN iffD1])

text \<open>
  C7. The script sent with a call is the trimmed text of the first field of the record
  whose column name contains, whatever the case of its letters, one of \<^verbatim>\<open>script\<close>,
  \<^verbatim>\<open>message\<close>, \<^verbatim>\<open>notes\<close>, \<^verbatim>\<open>prompt\<close> and whose trimmed text is not empty; without
  such a field it is the global script text, trimmed; and when that is empty too the script
  is the empty string, which the endpoint takes for no script. For a row with a column
  \<^verbatim>\<open>Notes\<close> holding \<^verbatim>\<open>Hello\<close> and the global script \<^verbatim>\<open>Goodbye\<close> the script is
  \<^verbatim>\<open>Hello\<close>.
\<close>

theorem script_resolution_order:
  "p_script (call_payload r s) = resolve_script_spec r (scriptOverride s)
   \<and> p_script (call_payload sample_notes_record (initial_state ''Goodbye'')) = ''Hello''"
proof -
  have general: "p_script (call_payload r' s') = resolve_script_spec r' (scriptOverride s')"
    for r' s'
    by (simp add: call_payload_def resolve_script_eq)
  have "resolve_script_spec sample_notes_record ''Goodbye'' = ''Hello''"
    by code_simp
  then have "p_script (call_payload sample_notes_record (initial_state ''Goodbye'')) = ''Hello''"
    by (simp add: general initial_state_def)
  with general show ?thesis by blast
qed

text \<open>Blank per-row fields are passed over: the global script is sent, trimmed.\<close>

theorem script_resolution_order_witness:
  "p_script (call_payload sample_blank_script_record (initial_state '' Goodbye '')) = ''Goodbye''"
proof -
  have "resolve_script_spec sample_blank_script_record '' Goodbye '' = ''Goodbye''"
    by code_simp
  with script_resolution_order [of sample_blank_script_record "initial_state '' Goodbye ''"]
  show ?thesis by (simp add: initial_state_def)
qed

subsection \<open>Call Trigger\<close>

lemma trace_setCallStatus:
  "trace (setCallStatus e rid upd s) = trace s @ [SetStatus (js_String rid) (u_status upd)]"
  by (simp add: setCallStatus_def Let_def)


lemma status_setCallStatus:
  "map_option status (statusMap (setCallStatus e rid upd s) (js_String rid)) = Some (u_status upd)"
  by (simp add: setCallStatus_def Let_def)

lemma message_setCallStatus:
  "u_message upd = Some m \<Longrightarrow>
   map_option message (statusMap (setCallStatus e rid upd s) (js_String rid)) = Some (Some m)"
  by (simp add: setCallStatus_def Let_def)

lemma sid_setCallStatus:
  "u_sid upd = Some v \<Longrightarrow>
   map_option sid (statusMap (setCallStatus e rid upd s) (js_String rid)) = Some v"
  by (simp add: setCallStatus_def Let_def)

lemma flags_setCallStatus:
  "isAutoDialing (setCallStatus e rid upd s) = isAutoDialing s"
  "scriptOverride (setCallStatus e rid upd s) = scriptOverride s"
  by (simp_all add: setCallStatus_def Let_def)

lemma triggerCall_missing:
  "\<not> truthy (obj_get r ''from'') \<or> \<not> truthy (obj_get r ''to'') \<Longrightarrow>
   triggerCall e r s =
     setCallStatus e (obj_get r ''id'')
       \<lparr> u_status = Error, u_message = Some ''Missing phone numbers'',
         u_sid = None, u_timestamp = None \<rparr> s"
  by (simp add: triggerCall_def)

text \<open>The state in which the request goes out, and the update that settles the call.\<close>

lemma triggerCall_dialable:
  assumes "dialable r"
  shows "triggerCall e r s =
     setCallStatus e (obj_get r ''id'')
       (case settle e (fetch e (Suc (length (trace s))) (call_payload r s)) of
          Inr sidv \<Rightarrow>
            \<lparr> u_status = Success,
              u_message = Some (if truthy sidv
                                then ''Call queued (SID: '' @ js_String sidv @ '')''
                                else ''Call queued''),
              u_sid = Some sidv, u_timestamp = None \<rparr>
        | Inl callError \<Rightarrow>
            \<lparr> u_status = Error,
              u_message = Some (case callError of ErrorObj m \<Rightarrow> m | NonError \<Rightarrow> ''Call failed''),
              u_sid = None, u_timestamp = None \<rparr>)
       ((setCallStatus e (obj_get r ''id'')
           \<lparr> u_status = Calling, u_message = Some ''Dialing...'',
             u_sid = None, u_timestamp = None \<rparr> s)
        \<lparr> trace := trace s @ [SetStatus (record_key r) Calling, Fetch (call_payload r s)] \<rparr>)"
  using assms
  by (simp add: triggerCall_def dialable_def Let_def trace_setCallStatus record_key_def
      split: sum.splits)


lemma trace_triggerCall:
  "trace (triggerCall e r s) =
     trace s @ (if dialable r
                then [SetStatus (record_key r) Calling, Fetch (call_payload r s),
                      SetStatus (record_key r) (final_status e r s)]
                else [SetStatus (record_key r) Error])"
proof (cases "dialable r")
  case True
  then show ?thesis
    by (simp add: triggerCall_dialable trace_setCallStatus record_key_def final_status_def
        split: sum.splits)
next
  case False
  then have "\<not> truthy (obj_get r ''from'') \<or> \<not> truthy (obj_get r ''to'')"
    by (simp add: dialable_def)
  then show ?thesis using False
    by (simp add: triggerCall_missing trace_setCallStatus record_key_def)
qed


lemma flags_triggerCall:
  "isAutoDialing (triggerCall e r s) = isAutoDialing s"
  "scriptOverride (triggerCall e r s) = scriptOverride s"
  by (simp_all add: triggerCall_def Let_def flags_setCallStatus split: sum.splits)





lemma settle_cases:
  "settle e (Rejected t) = Inl t"
  "settle e (Response False (Unparseable t)) = Inl (ErrorObj ''Call failed'')"
  "settle e (Response False ParsedNull) = Inl (ErrorObj (null_destructure_message e ''error''))"
  "settle e (Response False (Parsed b))
     = Inl (ErrorObj (if nullish (obj_get b ''error'') then ''Call failed''
                      else js_String (obj_get b ''error'')))"
  "settle e (Response True (Unparseable t)) = Inl t"
  "settle e (Response True ParsedNull) = Inl (ErrorObj (null_destructure_message e ''sid''))"
  "settle e (Response True (Parsed b)) = Inr (obj_get b ''sid'')"
  by (simp_all add: settle_def nullish_or_def)

text \<open>
  C4. For a record with non-empty \<^verbatim>\<open>from\<close> and \<^verbatim>\<open>to\<close> the Call Trigger sets the status
  \<open>Calling\<close>, then issues the request, then sets the final status, which every answer of
  the network decides. A 2xx response whose body parses to a value other than \<^verbatim>\<open>null\<close>
  gives \<open>Success\<close> and stores the \<^verbatim>\<open>sid\<close> of the body: the call identifier when the body
  holds one (message \<^verbatim>\<open>Call queued (SID: ...)\<close>), \<^verbatim>\<open>undefined\<close> when it holds none
  (message \<^verbatim>\<open>Call queued\<close>). A response that is not 2xx gives \<open>Error\<close> with the error
  text of the server when the body has one and \<^verbatim>\<open>Call failed\<close> when it has none or
  cannot be parsed. A failed request and a 2xx response whose body cannot be parsed give
  \<open>Error\<close> with the message of the error thrown, \<^verbatim>\<open>Call failed\<close> when the thrown value is
  not an error; a body \<^verbatim>\<open>null\<close> gives \<open>Error\<close> with the message of the runtime's type
  error.
\<close>

theorem call_trigger_outcomes:
  assumes "truthy (obj_get r ''from'')" and "truthy (obj_get r ''to'')"
  shows "trace (triggerCall e r s)
           = trace s @ [SetStatus (record_key r) Calling, Fetch (call_payload r s),
                        SetStatus (record_key r) (final_status e r s)]
       \<and> (\<forall>b. fetch e (Suc (length (trace s))) (call_payload r s) = Response True (Parsed b)
            \<longrightarrow> map_option status (statusMap (triggerCall e r s) (record_key r)) = Some Success
                \<and> map_option sid (statusMap (triggerCall e r s) (record_key r))
                    = Some (obj_get b ''sid'')
                \<and> map_option message (statusMap (triggerCall e r s) (record_key r))
                    = Some (Some (if truthy (obj_get b ''sid'')
                                  then ''Call queued (SID: '' @ js_String (obj_get b ''sid'') @ '')''
                                  else ''Call queued'')))
       \<and> (\<forall>t. fetch e (Suc (length (trace s))) (call_payload r s) = Response True (Unparseable t)
            \<longrightarrow> map_option status (statusMap (triggerCall e r s) (record_key r)) = Some Error
                \<and> map_option message (statusMap (triggerCall e r s) (record_key r))
                    = Some (Some (case t of ErrorObj m \<Rightarrow> m | NonError \<Rightarrow> ''Call failed'')))
       \<and> (fetch e (Suc (length (trace s))) (call_payload r s) = Response True ParsedNull
            \<longrightarrow> map_option status (statusMap (triggerCall e r s) (record_key r)) = Some Error
                \<and> map_option message (statusMap (triggerCall e r s) (record_key r))
                    = Some (Some (null_destructure_message e ''sid'')))
       \<and> (\<forall>b. fetch e (Suc (length (trace s))) (call_payload r s) = Response False b
            \<longrightarrow> map_option status (statusMap (triggerCall e r s) (record_key r)) = Some Error
                \<and> map_option message (statusMap (triggerCall e r s) (record_key r))
                    = Some (Some (case b of
                                    Parsed p \<Rightarrow> if nullish (obj_get p ''error'') then ''Call failed''
                                                else js_String (obj_get p ''error'')
                                  | Unparseable t \<Rightarrow> ''Call failed''
                                  | ParsedNull \<Rightarrow> null_destructure_message e ''error'')))
       \<and> (\<forall>t. fetch e (Suc (length (trace s))) (call_payload r s) = Rejected t
            \<longrightarrow> map_option status (statusMap (triggerCall e r s) (record_key r)) = Some Error
                \<and> map_option message (statusMap (triggerCall e r s) (record_key r))
                    = Some (Some (case t of ErrorObj m \<Rightarrow> m | NonError \<Rightarrow> ''Call failed'')))"
proof -
  from assms have d: "dialable r" by (simp add: dialable_def)
  let ?out = "fetch e (Suc (length (trace s))) (call_payload r s)"
  let ?entry = "statusMap (triggerCall e r s) (record_key r)"
  have tr: "trace (triggerCall e r s)
           = trace s @ [SetStatus (record_key r) Calling, Fetch (call_payload r s),
                        SetStatus (record_key r) (final_status e r s)]"
    using d by (simp add: trace_triggerCall)
  have ok: "map_option status ?entry = Some Success
       \<and> map_option sid ?entry = Some (obj_get b ''sid'')
       \<and> map_option message ?entry
           = Some (Some (if truthy (obj_get b ''sid'')
                         then ''Call queued (SID: '' @ js_String (obj_get b ''sid'') @ '')''
                         else ''Call queued''))"
    if "?out = Response True (Parsed b)" for b
    using that unfolding triggerCall_dialable [OF d] record_key_def
    by (simp add: settle_cases status_setCallStatus sid_setCallStatus message_setCallStatus)
  have garbled: "map_option status ?entry = Some Error
       \<and> map_option message ?entry
           = Some (Some (case t of ErrorObj m \<Rightarrow> m | NonError \<Rightarrow> ''Call failed''))"
    if "?out = Response True (Unparseable t)" for t
    using that unfolding triggerCall_dialable [OF d] record_key_def
    by (simp add: settle_cases status_setCallStatus message_setCallStatus)
  have null: "map_option status ?entry = Some Error
       \<and> map_option message ?entry = Some (Some (null_destructure_message e ''sid''))"
    if "?out = Response True ParsedNull"
    using that unfolding triggerCall_dialable [OF d] record_key_def
    by (simp add: settle_cases status_setCallStatus message_setCallStatus)
  have refused: "map_option status ?entry = Some Error
       \<and> map_option message ?entry
           = Some (Some (case b of
                           Parsed p \<Rightarrow> if nullish (obj_get p ''error'') then ''Call failed''
                                       else js_String (obj_get p ''error'')
                         | Unparseable t \<Rightarrow> ''Call failed''
                         | ParsedNull \<Rightarrow> null_destructure_message e ''error''))"
    if "?out = Response False b" for b
    using that unfolding triggerCall_dialable [OF d] record_key_def
    by (cases b) (simp_all add: settle_cases status_setCallStatus message_setCallStatus)
  have failed: "map_option status ?entry = Some Error
       \<and> map_option message ?entry
           = Some (Some (case t of ErrorObj m \<Rightarrow> m | NonError \<Rightarrow> ''Call failed''))"
    if "?out = Rejected t" for t
    using that unfolding triggerCall_dialable [OF d] record_key_def
    by (simp add: settle_cases status_setCallStatus message_setCallStatus)
  from tr ok garbled null refused failed show ?thesis by blast
qed

text \<open>A created call, and a call the server refuses with an error text.\<close>

theorem call_trigger_outcomes_witness:
  "truthy (obj_get sample_notes_record ''from'') \<and> truthy (obj_get sample_notes_record ''to'')
   \<and> map_option status
        (statusMap (triggerCall sample_env sample_notes_record (initial_state [])) ''row-0'')
       = Some Success
   \<and> map_option sid
        (statusMap (triggerCall sample_env sample_notes_record (initial_state [])) ''row-0'')
       = Some (Str ''CA01'')
   \<and> truthy (obj_get sample_refused_record ''from'') \<and> truthy (obj_get sample_refused_record ''to'')
   \<and> map_option message
        (statusMap (triggerCall sample_env sample_refused_record (initial_state [])) ''row-2'')
       = Some (Some ''Number is not verified'')"
proof -
  have h1: "truthy (obj_get sample_notes_record ''from'')"
    and h2: "truthy (obj_get sample_notes_record ''to'')"
    and k: "record_key sample_notes_record = ''row-0''"
    by code_simp+
  have out: "fetch sample_env (Suc (length (trace (initial_state []))))
               (call_payload sample_notes_record (initial_state []))
             = Response True (Parsed [(''sid'', Str ''CA01'')])"
    by code_simp
  have sidv: "obj_get [(''sid'', Str ''CA01'')] ''sid'' = Str ''CA01''"
    by simp
  from call_trigger_outcomes [OF h1 h2, of sample_env "initial_state []"] out
  have "map_option status
        (statusMap (triggerCall sample_env sample_notes_record (initial_state []))
           (record_key sample_notes_record)) = Some Success
     \<and> map_option sid
        (statusMap (triggerCall sample_env sample_notes_record (initial_state []))
           (record_key sample_notes_record)) = Some (obj_get [(''sid'', Str ''CA01'')] ''sid'')"
    by blast
  then have created: "map_option status
        (statusMap (triggerCall sample_env sample_notes_record (initial_state []))
           (record_key sample_notes_record)) = Some Success
     \<and> map_option sid
        (statusMap (triggerCall sample_env sample_notes_record (initial_state []))
           (record_key sample_notes_record)) = Some (Str ''CA01'')"
    unfolding sidv .
  have g1: "truthy (obj_get sample_refused_record ''from'')"
    and g2: "truthy (obj_get sample_refused_record ''to'')"
    and k': "record_key sample_refused_record = ''row-2''"
    by code_simp+
  have out': "fetch sample_env (Suc (length (trace (initial_state []))))
                (call_payload sample_refused_record (initial_state []))
              = Response False (Parsed [(''error'', Str ''Number is not verified'')])"
    by code_simp
  have msg: "(case Parsed [(''error'', Str ''Number is not verified'')] of
                Parsed p \<Rightarrow> if nullish (obj_get p ''error'') then ''Call failed''
                            else js_String (obj_get p ''error'')
              | Unparseable t \<Rightarrow> ''Call failed''
              | ParsedNull \<Rightarrow> null_destructure_message sample_env ''error'')
             = ''Number is not verified''"
    by simp
  from call_trigger_outcomes [OF g1 g2, of sample_env "initial_state []"] out'
  have "map_option message
        (statusMap (triggerCall sample_env sample_refused_record (initial_state []))
           (record_key sample_refused_record))
      = Some (Some (case Parsed [(''error'', Str ''Number is not verified'')] of
                Parsed p \<Rightarrow> if nullish (obj_get p ''error'') then ''Call failed''
                            else js_String (obj_get p ''error'')
              | Unparseable t \<Rightarrow> ''Call failed''
              | ParsedNull \<Rightarrow> null_destructure_message sample_env ''error''))"
    by blast
  then have refused: "map_option message
        (statusMap (triggerCall sample_env sample_refused_record (initial_state []))
           (record_key sample_refused_record)) = Some (Some ''Number is not verified'')"
    unfolding msg .
  from h1 h2 created [unfolded k] g1 g2 refused [unfolded k'] show ?thesis by blast
qed

text \<open>An answer 200 without a call identifier is taken for a success, and when the network
  is down the message is the text of the error thrown, not the fallback.\<close>

theorem call_trigger_outcomes_counterexample:
  "truthy (obj_get sample_notes_record ''from'') \<and> truthy (obj_get sample_notes_record ''to'')
   \<and> fetch sample_env_no_identifier 1 (call_payload sample_notes_record (initial_state []))
       = Response True (Parsed [])
   \<and> map_option status
        (statusMap (triggerCall sample_env_no_identifier sample_notes_record (initial_state []))
           ''row-0'')
       = Some Success
   \<and> map_option sid
        (statusMap (triggerCall sample_env_no_identifier sample_notes_record (initial_state []))
           ''row-0'')
       = Some Undefined
   \<and> map_option message
        (statusMap (triggerCall sample_env_offline sample_notes_record (initial_state []))
           ''row-0'')
       = Some (Some ''Failed to fetch'')"
  by code_simp

subsection \<open>Queue Dialer\<close>



lemma delay_simps:
  "trace (delay ms s) = trace s @ [Delay ms]"
  "statusMap (delay ms s) = statusMap s"
  "isAutoDialing (delay ms s) = isAutoDialing s"
  "scriptOverride (delay ms s) = scriptOverride s"
  by (simp_all add: delay_def)



lemma flags_dial_loop:
  "isAutoDialing (dial_loop e snap rs s) = isAutoDialing s
   \<and> scriptOverride (dial_loop e snap rs s) = scriptOverride s"
  by (induction rs arbitrary: s) (simp_all add: delay_simps flags_triggerCall)









subsection \<open>The page between events\<close>


lemma final_status_cases: "final_status e r s = Success \<or> final_status e r s = Error"
  by (simp add: final_status_def split: sum.splits)


subsection \<open>The steps of a call\<close>

lemma start_call_missing:
  "\<not> dialable r \<Longrightarrow>
   start_call e r p =
     (p\<lparr> app := setCallStatus e (obj_get r ''id'')
                   \<lparr> u_status = Error, u_message = Some ''Missing phone numbers'',
                     u_sid = None, u_timestamp = None \<rparr> (app p) \<rparr>, None)"
  by (auto simp: start_call_def dialable_def)

lemma start_call_dialable:
  "dialable r \<Longrightarrow>
   start_call e r p =
     (p\<lparr> app := (setCallStatus e (obj_get r ''id'')
                    \<lparr> u_status = Calling, u_message = Some ''Dialing...'',
                      u_sid = None, u_timestamp = None \<rparr> (app p))
                  \<lparr> trace := trace (app p) @ [SetStatus (record_key r) Calling,
                                               Fetch (call_payload r (app p))] \<rparr>,
          pending := pending p @ [(Suc (length (trace (app p))), r)] \<rparr>,
      Some (Suc (length (trace (app p)))))"
  by (simp add: start_call_def dialable_def Let_def trace_setCallStatus record_key_def)

text \<open>A call started and settled at once with the answer of the network is the Call Trigger
  run to its end.\<close>

lemma triggerCall_in_two_steps:
  "triggerCall e r (app p) =
     (case start_call e r p of
        (p', None) \<Rightarrow> app p'
      | (p', Some n) \<Rightarrow> finish_call e r (fetch e n (call_payload r (app p))) (app p'))"
proof (cases "dialable r")
  case True
  then show ?thesis
    by (simp add: start_call_dialable triggerCall_dialable finish_call_def record_key_def
        split: sum.splits)
next
  case False
  then have "\<not> truthy (obj_get r ''from'') \<or> \<not> truthy (obj_get r ''to'')"
    by (simp add: dialable_def)
  then show ?thesis using False
    by (simp add: start_call_missing triggerCall_missing)
qed

lemma trace_finish_call:
  "\<exists>fin. (fin = Success \<or> fin = Error)
         \<and> trace (finish_call e r outcome s) = trace s @ [SetStatus (record_key r) fin]"
  by (auto simp: finish_call_def trace_setCallStatus record_key_def split: sum.splits)








subsection \<open>Invariants of a run\<close>




subsection \<open>Status transitions\<close>




















text \<open>Nor do they hold when calls for one record overlap. The queue button stays enabled
  while the call of a row is in flight, and the loop passes over successful records only:
  the queue calls the first row again while it is \<open>Calling\<close>, and both calls settle.\<close>

lemma overlapping_calls_reachable:
  "run_history True sample_env sample_queue sample_overlapping_run [] ''row-0''
     = Some [Calling, Calling, Success, Success]
   \<and> \<not> overlap_free [Calling, Calling, Success, Success]
   \<and> \<not> follows allowed Idle [Calling, Calling, Success, Success]"
  by code_simp

subsection \<open>Call API Endpoint\<close>

lemma replace_all_Nil: "replace_all c rep [] = []"
  by (simp add: replace_all_def)

lemma replace_all_Cons:
  "replace_all c rep (x # xs) = (if x = c then rep else [x]) @ replace_all c rep xs"
  by (simp add: replace_all_def)

lemma replace_all_append:
  "replace_all c rep (xs @ ys) = replace_all c rep xs @ replace_all c rep ys"
  by (simp add: replace_all_def)

lemma escapeForTwiml_Nil: "escapeForTwiml [] = []"
  by (simp add: escapeForTwiml_def replace_all_Nil)

lemma escapeForTwiml_Cons: "escapeForTwiml (x # xs) = escape_char x @ escapeForTwiml xs"
  by (simp add: escapeForTwiml_def escape_char_def replace_all_Cons replace_all_append
      replace_all_Nil)

lemma escapeForTwiml_chars: "escapeForTwiml s = concat (map escape_char s)"
  by (induction s) (simp_all add: escapeForTwiml_Nil escapeForTwiml_Cons)

lemma escape_example: "escapeForTwiml ''<Tom & Jerry>'' = ''&lt;Tom &amp; Jerry&gt;''"
  by code_simp

lemma buildTwiml_script:
  "trim t \<noteq> [] \<Longrightarrow> buildTwiml penv (Some t) = Some (say_document (trim t))"
  by (simp add: buildTwiml_def falsy_str_def)

lemma buildTwiml_blank:
  "falsy_str (map_option trim script) \<Longrightarrow>
   buildTwiml penv script
     = (if falsy_str (TWILIO_FALLBACK_MESSAGE penv) then None
        else map_option say_document (TWILIO_FALLBACK_MESSAGE penv))"
  by (auto simp: buildTwiml_def falsy_str_def Let_def split: option.splits)

text \<open>The voice instruction for a script with text, and for a script that is missing or empty.\<close>

lemma voice_instruction_script_present:
  assumes "script_field request = Some t" and "trim t \<noteq> []"
  shows "cp_url (call_params penv request f t') = None
       \<and> cp_twiml (call_params penv request f t') = Some (say_document (trim t))"
proof -
  from assms have "t \<noteq> []" by (auto simp: trim_def)
  with assms show ?thesis
    by (simp add: call_params_def buildTwiml_script falsy_str_def)
qed

lemma voice_instruction_script_missing:
  assumes "falsy_str (script_field request)"
  shows "cp_url (call_params penv request f t')
           = (if falsy_str (TWILIO_VOICE_URL penv) then None else TWILIO_VOICE_URL penv)
       \<and> cp_twiml (call_params penv request f t')
           = (if falsy_str (TWILIO_FALLBACK_MESSAGE penv) then None
              else map_option say_document (TWILIO_FALLBACK_MESSAGE penv))"
proof -
  from assms have "falsy_str (map_option trim (script_field request))"
    by (auto simp: falsy_str_def trim_def split: option.splits)
  with assms show ?thesis
    by (simp add: call_params_def buildTwiml_blank)
qed

text \<open>
  C9. A script that is not empty but blank: the voice URL is passed only when the script as
  sent is missing or empty, the document is built only when the trimmed script is not
  empty. So for a script of one space, with a voice URL configured and no fallback
  message, the call is created with neither URL nor document, while the same request with
  an empty script gets the voice URL.
\<close>

theorem blank_script_drops_voice_url:
  "cp_url (call_params sample_penv sample_blank_script_request ''+15550001111'' ''+15552223333'')
     = None
   \<and> cp_twiml (call_params sample_penv sample_blank_script_request ''+15550001111'' ''+15552223333'')
     = None
   \<and> cp_url (call_params sample_penv (sample_blank_script_request\<lparr> script_field := Some [] \<rparr>)
               ''+15550001111'' ''+15552223333'')
     = Some ''https://example.com/voice.xml''"
  by code_simp

text \<open>What the handler answers, and when it answers nothing: the cases of \<^verbatim>\<open>POST\<close> one by
  one.\<close>

lemma POST_without_credentials:
  "falsy_str (TWILIO_ACCOUNT_SID penv) \<or> falsy_str (TWILIO_AUTH_TOKEN penv) \<Longrightarrow>
   POST penv rt body = Responds 500 (ErrorBody ''Missing Twilio credentials'')"
  by (simp add: POST_def)

lemma POST_shape:
  assumes "POST penv rt body = Responds code answer"
  shows "(code = 200 \<and> (\<exists>call_sid. answer = SidBody call_sid))
          \<or> ((code = 400 \<or> code = 500) \<and> (\<exists>msg. answer = ErrorBody msg))"
  using assms unfolding POST_def
  by (auto split: request_body.splits option.splits if_splits provider_result.splits thrown.splits)

lemma POST_Throws:
  "(POST penv rt body = Throws)
        = (\<not> falsy_str (TWILIO_ACCOUNT_SID penv) \<and> \<not> falsy_str (TWILIO_AUTH_TOKEN penv)
           \<and> (body = JsonNull
               \<or> (\<exists>payload. body = JsonBody payload
                     \<and> (optional_trim (obj_get payload ''from'') = None
                         \<or> optional_trim (obj_get payload ''to'') = None
                         \<or> (\<exists>from_t to_t.
                               optional_trim (obj_get payload ''from'') = Some from_t
                               \<and> optional_trim (obj_get payload ''to'') = Some to_t
                               \<and> \<not> falsy_str from_t \<and> \<not> falsy_str to_t
                               \<and> twilio rt (set_value (TWILIO_ACCOUNT_SID penv))
                                            (set_value (TWILIO_AUTH_TOKEN penv)) = None)))))"
  unfolding POST_def
  by (auto split: request_body.splits option.splits provider_result.splits thrown.splits)

lemma POST_InvalidJson:
  "\<not> falsy_str (TWILIO_ACCOUNT_SID penv) \<Longrightarrow> \<not> falsy_str (TWILIO_AUTH_TOKEN penv) \<Longrightarrow>
   POST penv rt InvalidJson = Responds 400 (ErrorBody ''Invalid JSON body'')"
  by (simp add: POST_def)

lemma POST_numbers_required:
  "\<not> falsy_str (TWILIO_ACCOUNT_SID penv) \<Longrightarrow> \<not> falsy_str (TWILIO_AUTH_TOKEN penv) \<Longrightarrow>
   optional_trim (obj_get payload ''from'') = Some from_t \<Longrightarrow>
   optional_trim (obj_get payload ''to'') = Some to_t \<Longrightarrow>
   falsy_str from_t \<or> falsy_str to_t \<Longrightarrow>
   POST penv rt (JsonBody payload)
     = Responds 400 (ErrorBody ''Both `from` and `to` numbers are required'')"
  by (simp add: POST_def)

lemma POST_created:
  "\<not> falsy_str (TWILIO_ACCOUNT_SID penv) \<Longrightarrow> \<not> falsy_str (TWILIO_AUTH_TOKEN penv) \<Longrightarrow>
   obj_get payload ''from'' = Str f \<Longrightarrow> trim f \<noteq> [] \<Longrightarrow>
   obj_get payload ''to'' = Str t \<Longrightarrow> trim t \<noteq> [] \<Longrightarrow>
   twilio rt (set_value (TWILIO_ACCOUNT_SID penv)) (set_value (TWILIO_AUTH_TOKEN penv))
     = Some create \<Longrightarrow>
   typed_script (obj_get payload ''script'') = Some script \<Longrightarrow>
   create (call_params penv
             \<lparr> from_field = Some (trim f), to_field = Some (trim t), script_field = script \<rparr>
             (trim f) (trim t)) = Created call_sid \<Longrightarrow>
   POST penv rt (JsonBody payload) = Responds 200 (SidBody call_sid)"
  by (simp add: POST_def falsy_str_def set_value_def)

text \<open>C8. For every request to the endpoint: when a provider credential is absent the handler
  responds 500 with the error \<^verbatim>\<open>Missing Twilio credentials\<close>. With the credentials present:
  a body that is not parseable JSON is answered with 400; a body whose \<^verbatim>\<open>from\<close> and \<^verbatim>\<open>to\<close>
  are each a string or missing, one of them missing or empty after trimming, is answered with
  400; a body whose \<^verbatim>\<open>from\<close> and \<^verbatim>\<open>to\<close> are strings with text, with a script that can be
  trimmed, is answered with 200 and the identifier of the call when the provider creates the
  call. Every response the handler returns has status 200 with a body \<^verbatim>\<open>{sid}\<close>, or status 400
  or 500 with a body \<^verbatim>\<open>{error}\<close>. The handler returns no response but throws exactly when the
  credentials are present and the body is the JSON value \<^verbatim>\<open>null\<close>, or \<^verbatim>\<open>from\<close> or \<^verbatim>\<open>to\<close> is
  present and not a string, or both have text and the provider client cannot be constructed.\<close>

theorem call_endpoint_responses:
  "(falsy_str (TWILIO_ACCOUNT_SID penv) \<or> falsy_str (TWILIO_AUTH_TOKEN penv) \<longrightarrow>
      POST penv rt body = Responds 500 (ErrorBody ''Missing Twilio credentials''))
   \<and> (\<not> falsy_str (TWILIO_ACCOUNT_SID penv) \<and> \<not> falsy_str (TWILIO_AUTH_TOKEN penv) \<longrightarrow>
        POST penv rt InvalidJson = Responds 400 (ErrorBody ''Invalid JSON body'')
        \<and> (\<forall>payload from_t to_t.
              optional_trim (obj_get payload ''from'') = Some from_t
              \<and> optional_trim (obj_get payload ''to'') = Some to_t
              \<and> (falsy_str from_t \<or> falsy_str to_t) \<longrightarrow>
              POST penv rt (JsonBody payload)
                = Responds 400 (ErrorBody ''Both `from` and `to` numbers are required''))
        \<and> (\<forall>payload f t script create call_sid.
              obj_get payload ''from'' = Str f \<and> trim f \<noteq> []
              \<and> obj_get payload ''to'' = Str t \<and> trim t \<noteq> []
              \<and> twilio rt (set_value (TWILIO_ACCOUNT_SID penv))
                           (set_value (TWILIO_AUTH_TOKEN penv)) = Some create
              \<and> typed_script (obj_get payload ''script'') = Some script
              \<and> create (call_params penv
                           \<lparr> from_field = Some (trim f), to_field = Some (trim t),
                             script_field = script \<rparr> (trim f) (trim t)) = Created call_sid \<longrightarrow>
              POST penv rt (JsonBody payload) = Responds 200 (SidBody call_sid)))
   \<and> (\<forall>code answer. POST penv rt body = Responds code answer \<longrightarrow>
          (code = 200 \<and> (\<exists>call_sid. answer = SidBody call_sid))
          \<or> ((code = 400 \<or> code = 500) \<and> (\<exists>msg. answer = ErrorBody msg)))
   \<and> ((POST penv rt body = Throws)
        = (\<not> falsy_str (TWILIO_ACCOUNT_SID penv) \<and> \<not> falsy_str (TWILIO_AUTH_TOKEN penv)
           \<and> (body = JsonNull
               \<or> (\<exists>payload. body = JsonBody payload
                     \<and> (optional_trim (obj_get payload ''from'') = None
                         \<or> optional_trim (obj_get payload ''to'') = None
                         \<or> (\<exists>from_t to_t.
                               optional_trim (obj_get payload ''from'') = Some from_t
                               \<and> optional_trim (obj_get payload ''to'') = Some to_t
                               \<and> \<not> falsy_str from_t \<and> \<not> falsy_str to_t
                               \<and> twilio rt (set_value (TWILIO_ACCOUNT_SID penv))
                                            (set_value (TWILIO_AUTH_TOKEN penv)) = None))))))"
proof (intro conjI impI allI)
  assume "falsy_str (TWILIO_ACCOUNT_SID penv) \<or> falsy_str (TWILIO_AUTH_TOKEN penv)"
  then show "POST penv rt body = Responds 500 (ErrorBody ''Missing Twilio credentials'')"
    by (rule POST_without_credentials)
next
  assume "\<not> falsy_str (TWILIO_ACCOUNT_SID penv) \<and> \<not> falsy_str (TWILIO_AUTH_TOKEN penv)"
  then show "POST penv rt InvalidJson = Responds 400 (ErrorBody ''Invalid JSON body'')"
    by (simp add: POST_InvalidJson)
next
  fix payload from_t to_t
  assume "\<not> falsy_str (TWILIO_ACCOUNT_SID penv) \<and> \<not> falsy_str (TWILIO_AUTH_TOKEN penv)"
    and "optional_trim (obj_get payload ''from'') = Some from_t
         \<and> optional_trim (obj_get payload ''to'') = Some to_t
         \<and> (falsy_str from_t \<or> falsy_str to_t)"
  then show "POST penv rt (JsonBody payload)
                = Responds 400 (ErrorBody ''Both `from` and `to` numbers are required'')"
    using POST_numbers_required [of penv payload from_t to_t rt] by blast
next
  fix payload f t script create call_sid
  assume "\<not> falsy_str (TWILIO_ACCOUNT_SID penv) \<and> \<not> falsy_str (TWILIO_AUTH_TOKEN penv)"
    and "obj_get payload ''from'' = Str f \<and> trim f \<noteq> []
              \<and> obj_get payload ''to'' = Str t \<and> trim t \<noteq> []
              \<and> twilio rt (set_value (TWILIO_ACCOUNT_SID penv))
                           (set_value (TWILIO_AUTH_TOKEN penv)) = Some create
              \<and> typed_script (obj_get payload ''script'') = Some script
              \<and> create (call_params penv
                           \<lparr> from_field = Some (trim f), to_field = Some (trim t),
                             script_field = script \<rparr> (trim f) (trim t)) = Created call_sid"
  then show "POST penv rt (JsonBody payload) = Responds 200 (SidBody call_sid)"
    using POST_created [of penv payload f t rt create script call_sid] by blast
next
  fix code answer
  assume "POST penv rt body = Responds code answer"
  then show "(code = 200 \<and> (\<exists>call_sid. answer = SidBody call_sid))
          \<or> ((code = 400 \<or> code = 500) \<and> (\<exists>msg. answer = ErrorBody msg))"
    by (rule POST_shape)
next
  show "(POST penv rt body = Throws)
        = (\<not> falsy_str (TWILIO_ACCOUNT_SID penv) \<and> \<not> falsy_str (TWILIO_AUTH_TOKEN penv)
           \<and> (body = JsonNull
               \<or> (\<exists>payload. body = JsonBody payload
                     \<and> (optional_trim (obj_get payload ''from'') = None
                         \<or> optional_trim (obj_get payload ''to'') = None
                         \<or> (\<exists>from_t to_t.
                               optional_trim (obj_get payload ''from'') = Some from_t
                               \<and> optional_trim (obj_get payload ''to'') = Some to_t
                               \<and> \<not> falsy_str from_t \<and> \<not> falsy_str to_t
                               \<and> twilio rt (set_value (TWILIO_ACCOUNT_SID penv))
                                            (set_value (TWILIO_AUTH_TOKEN penv)) = None)))))"
    by (rule POST_Throws)
qed

text \<open>A body without a destination is answered with 400, a body with both numbers with 200
  and the identifier, and a body that is not JSON with 400.\<close>

theorem call_endpoint_responses_witness:
  "\<not> falsy_str (TWILIO_ACCOUNT_SID sample_penv) \<and> \<not> falsy_str (TWILIO_AUTH_TOKEN sample_penv)
   \<and> optional_trim (obj_get sample_no_destination_body ''from'') = Some (Some ''+15550001111'')
   \<and> optional_trim (obj_get sample_no_destination_body ''to'') = Some (Some [])
   \<and> POST sample_penv sample_runtime (JsonBody sample_no_destination_body)
       = Responds 400 (ErrorBody ''Both `from` and `to` numbers are required'')
   \<and> POST sample_penv sample_runtime (JsonBody sample_body) = Responds 200 (SidBody ''CA01'')
   \<and> POST sample_penv sample_runtime InvalidJson = Responds 400 (ErrorBody ''Invalid JSON body'')"
proof -
  have c: "\<not> falsy_str (TWILIO_ACCOUNT_SID sample_penv) \<and> \<not> falsy_str (TWILIO_AUTH_TOKEN sample_penv)"
    by code_simp
  note th = call_endpoint_responses [of sample_penv sample_runtime "JsonBody sample_body",
      THEN conjunct2, THEN conjunct1, THEN mp, OF c]
  have f: "optional_trim (obj_get sample_no_destination_body ''from'') = Some (Some ''+15550001111'')"
    by code_simp
  have t: "optional_trim (obj_get sample_no_destination_body ''to'') = Some (Some [])"
    by code_simp
  have blank: "falsy_str (Some ''+15550001111'') \<or> falsy_str (Some [])"
    by (simp add: falsy_str_def)
  have required: "POST sample_penv sample_runtime (JsonBody sample_no_destination_body)
       = Responds 400 (ErrorBody ''Both `from` and `to` numbers are required'')"
    by (rule th [THEN conjunct2, THEN conjunct1, rule_format,
          of sample_no_destination_body "Some ''+15550001111''" "Some []"])
       (intro conjI f t blank)
  have given: "obj_get sample_body ''from'' = Str '' +15550001111''
      \<and> trim '' +15550001111'' \<noteq> []
      \<and> obj_get sample_body ''to'' = Str ''+15552223333 ''
      \<and> trim ''+15552223333 '' \<noteq> []
      \<and> twilio sample_runtime (set_value (TWILIO_ACCOUNT_SID sample_penv))
           (set_value (TWILIO_AUTH_TOKEN sample_penv)) = Some sample_create
      \<and> typed_script (obj_get sample_body ''script'') = Some (Some ''<Tom & Jerry>'')
      \<and> sample_create
           (call_params sample_penv
              \<lparr> from_field = Some (trim '' +15550001111''),
                to_field = Some (trim ''+15552223333 ''),
                script_field = Some ''<Tom & Jerry>'' \<rparr>
              (trim '' +15550001111'') (trim ''+15552223333 '')) = Created ''CA01''"
  proof (intro conjI)
    show "obj_get sample_body ''from'' = Str '' +15550001111''" by code_simp
    show "trim '' +15550001111'' \<noteq> []" by code_simp
    show "obj_get sample_body ''to'' = Str ''+15552223333 ''" by code_simp
    show "trim ''+15552223333 '' \<noteq> []" by code_simp
    show "twilio sample_runtime (set_value (TWILIO_ACCOUNT_SID sample_penv))
           (set_value (TWILIO_AUTH_TOKEN sample_penv)) = Some sample_create"
      by (simp add: sample_runtime_def)
    show "typed_script (obj_get sample_body ''script'') = Some (Some ''<Tom & Jerry>'')"
      by code_simp
    show "sample_create
           (call_params sample_penv
              \<lparr> from_field = Some (trim '' +15550001111''),
                to_field = Some (trim ''+15552223333 ''),
                script_field = Some ''<Tom & Jerry>'' \<rparr>
              (trim '' +15550001111'') (trim ''+15552223333 '')) = Created ''CA01''"
      by (simp add: sample_create_def)
  qed
  have created: "POST sample_penv sample_runtime (JsonBody sample_body)
      = Responds 200 (SidBody ''CA01'')"
    by (rule th [THEN conjunct2, THEN conjunct2, rule_format,
          of sample_body "'' +15550001111''" "''+15552223333 ''" sample_create
             "Some ''<Tom & Jerry>''" "''CA01''"])
       (rule given)
  show ?thesis
    by (intro conjI c [THEN conjunct1] c [THEN conjunct2] f t required created
          th [THEN conjunct1])
qed

text \<open>Without credentials the error text is \<^verbatim>\<open>Missing Twilio credentials\<close>, not
  \<^verbatim>\<open>Missing credentials\<close>; and with credentials a body whose \<^verbatim>\<open>from\<close> is a number, or the body
  \<^verbatim>\<open>null\<close>, gets no response: the handler throws.\<close>

theorem call_endpoint_responses_counterexample:
  "POST sample_penv_without_credentials sample_runtime (JsonBody sample_body)
     = Responds 500 (ErrorBody ''Missing Twilio credentials'')
   \<and> POST sample_penv_without_credentials sample_runtime (JsonBody sample_body)
     \<noteq> Responds 500 (ErrorBody ''Missing credentials'')
   \<and> POST sample_penv sample_runtime (JsonBody sample_numeric_from_body) = Throws
   \<and> POST sample_penv sample_runtime JsonNull = Throws"
  by code_simp

end
